theory Spec2Isabelle
  imports Main "HOL-Library.Word"
begin

section \<open>The Sitronix ST7703 panel driver (panel-sitronix-st7703.c)\<close>

text \<open>
  The driver calls into the DSI bus, two regulators, the reset GPIO and the kernel's sleep
  and logging primitives. None of these is part of the driver's file. Every call the
  driver makes to one of them is recorded, in call order, as one \<open>op\<close> of a trace, and
  the integer a fallible call returns is a parameter: it is chosen by the environment, a
  function of the whole history up to and including that call, so that any deterministic
  transport or regulator is covered. Return codes are compared with zero and handed on,
  never computed with, so they are plain integers; where the driver stores a wider result
  in an \<open>int\<close>, the conversion is written out. A log message is the format string of
  the source without its trailing newline, together with the code it prints.
\<close>

type_synonym u8 = "8 word"

datatype regulator = Vcc | Iovcc

datatype op =
    Mipi_dsi_generic_write "u8 list"
  | Mipi_dsi_dcs_write u8 "u8 list"
  | Mipi_dsi_dcs_exit_sleep_mode
  | Mipi_dsi_dcs_set_display_on
  | Mipi_dsi_dcs_set_display_off
  | Mipi_dsi_dcs_enter_sleep_mode
  | Regulator_enable regulator
  | Regulator_disable regulator
  | Gpiod_set_value_cansleep int
  | Msleep nat
  | Usleep_range nat nat
  | Dev_info string
  | Dev_err string int
  | Dev_dbg string
  | Mipi_dsi_detach
  | Drm_panel_remove
  | Debugfs_remove_recursive

type_synonym trace = "op list"
type_synonym env = "op list \<Rightarrow> int"

text \<open>A call whose result the driver may look at, and a call without a result.\<close>

definition call :: "env \<Rightarrow> op \<Rightarrow> trace \<Rightarrow> int \<times> trace" where
  "call env x tr = (env (tr @ [x]), tr @ [x])"

definition emit :: "op \<Rightarrow> trace \<Rightarrow> trace" where
  "emit x tr = tr @ [x]"

definition mipi_dsi_generic_write :: "env \<Rightarrow> u8 list \<Rightarrow> trace \<Rightarrow> int \<times> trace" where
  "mipi_dsi_generic_write env d = call env (Mipi_dsi_generic_write d)"

definition mipi_dsi_dcs_write :: "env \<Rightarrow> u8 \<Rightarrow> u8 list \<Rightarrow> trace \<Rightarrow> int \<times> trace" where
  "mipi_dsi_dcs_write env cmd d = call env (Mipi_dsi_dcs_write cmd d)"

definition mipi_dsi_dcs_exit_sleep_mode :: "env \<Rightarrow> trace \<Rightarrow> int \<times> trace" where
  "mipi_dsi_dcs_exit_sleep_mode env = call env Mipi_dsi_dcs_exit_sleep_mode"

definition mipi_dsi_dcs_set_display_on :: "env \<Rightarrow> trace \<Rightarrow> int \<times> trace" where
  "mipi_dsi_dcs_set_display_on env = call env Mipi_dsi_dcs_set_display_on"

definition mipi_dsi_dcs_set_display_off :: "env \<Rightarrow> trace \<Rightarrow> int \<times> trace" where
  "mipi_dsi_dcs_set_display_off env = call env Mipi_dsi_dcs_set_display_off"

definition mipi_dsi_dcs_enter_sleep_mode :: "env \<Rightarrow> trace \<Rightarrow> int \<times> trace" where
  "mipi_dsi_dcs_enter_sleep_mode env = call env Mipi_dsi_dcs_enter_sleep_mode"

definition regulator_enable :: "env \<Rightarrow> regulator \<Rightarrow> trace \<Rightarrow> int \<times> trace" where
  "regulator_enable env r = call env (Regulator_enable r)"

definition regulator_disable :: "env \<Rightarrow> regulator \<Rightarrow> trace \<Rightarrow> int \<times> trace" where
  "regulator_disable env r = call env (Regulator_disable r)"

definition gpiod_set_value_cansleep :: "int \<Rightarrow> trace \<Rightarrow> trace" where
  "gpiod_set_value_cansleep v = emit (Gpiod_set_value_cansleep v)"

definition msleep :: "nat \<Rightarrow> trace \<Rightarrow> trace" where
  "msleep ms = emit (Msleep ms)"

definition usleep_range :: "nat \<Rightarrow> nat \<Rightarrow> trace \<Rightarrow> trace" where
  "usleep_range lo hi = emit (Usleep_range lo hi)"

definition dev_info :: "string \<Rightarrow> trace \<Rightarrow> trace" where
  "dev_info msg = emit (Dev_info msg)"

definition dev_err :: "string \<Rightarrow> int \<Rightarrow> trace \<Rightarrow> trace" where
  "dev_err fmt ret = emit (Dev_err fmt ret)"

definition dev_dbg :: "string \<Rightarrow> trace \<Rightarrow> trace" where
  "dev_dbg msg = emit (Dev_dbg msg)"

subsection \<open>Manufacturer specific commands\<close>

definition ST7703_CMD_ALL_PIXEL_OFF :: u8 where "ST7703_CMD_ALL_PIXEL_OFF = 0x22"
definition ST7703_CMD_ALL_PIXEL_ON :: u8 where "ST7703_CMD_ALL_PIXEL_ON = 0x23"
definition ST7703_CMD_SETDISP :: u8 where "ST7703_CMD_SETDISP = 0xB2"
definition ST7703_CMD_SETRGBIF :: u8 where "ST7703_CMD_SETRGBIF = 0xB3"
definition ST7703_CMD_SETCYC :: u8 where "ST7703_CMD_SETCYC = 0xB4"
definition ST7703_CMD_SETBGP :: u8 where "ST7703_CMD_SETBGP = 0xB5"
definition ST7703_CMD_SETVCOM :: u8 where "ST7703_CMD_SETVCOM = 0xB6"
definition ST7703_CMD_SETOTP :: u8 where "ST7703_CMD_SETOTP = 0xB7"
definition ST7703_CMD_SETPOWER_EXT :: u8 where "ST7703_CMD_SETPOWER_EXT = 0xB8"
definition ST7703_CMD_SETEXTC :: u8 where "ST7703_CMD_SETEXTC = 0xB9"
definition ST7703_CMD_SETMIPI :: u8 where "ST7703_CMD_SETMIPI = 0xBA"
definition ST7703_CMD_SETVDC :: u8 where "ST7703_CMD_SETVDC = 0xBC"
definition ST7703_CMD_UNKNOWN_BF :: u8 where "ST7703_CMD_UNKNOWN_BF = 0xBF"
definition ST7703_CMD_SETSCR :: u8 where "ST7703_CMD_SETSCR = 0xC0"
definition ST7703_CMD_SETPOWER :: u8 where "ST7703_CMD_SETPOWER = 0xC1"
definition ST7703_CMD_SETPANEL :: u8 where "ST7703_CMD_SETPANEL = 0xCC"
definition ST7703_CMD_UNKNOWN_C6 :: u8 where "ST7703_CMD_UNKNOWN_C6 = 0xC6"
definition ST7703_CMD_SETGAMMA :: u8 where "ST7703_CMD_SETGAMMA = 0xE0"
definition ST7703_CMD_SETEQ :: u8 where "ST7703_CMD_SETEQ = 0xE3"
definition ST7703_CMD_SETGIP1 :: u8 where "ST7703_CMD_SETGIP1 = 0xE9"
definition ST7703_CMD_SETGIP2 :: u8 where "ST7703_CMD_SETGIP2 = 0xEA"

subsection \<open>The write macros and straight-line init sequences\<close>

text \<open>
  An init sequence is a straight line of statements of four kinds: the macro
  \<open>dsi_generic_write_seq(dsi, seq...)\<close>, the macro \<open>dsi_dcs_write_seq(dsi, cmd, seq...)\<close>,
  \<open>msleep(ms)\<close> and \<open>dev_info(ctx->dev, msg)\<close>, closed by \<open>return 0\<close>. Each statement of
  the C function is one element of a list, in source order. Both macros expand to
  \<open>int ret; ret = mipi_dsi_..._write(...); if (ret < 0) return ret;\<close>. The write functions
  return an \<open>ssize_t\<close>, which the assignment narrows to the 32 bits of an \<open>int\<close>:
  \<open>to_int\<close> is that conversion, the signed value of the low 32 bits. The test and the
  \<open>return\<close>, which leaves the enclosing function, see the narrowed value: \<open>run_seq\<close>
  stops there and hands it back.
\<close>

definition to_int :: "int \<Rightarrow> int" where
  "to_int x = sint (word_of_int x :: 32 word)"

datatype stmt =
    Dsi_generic_write_seq "u8 list"
  | Dsi_dcs_write_seq u8 "u8 list"
  | Stmt_msleep nat
  | Stmt_dev_info string

fun run_seq :: "env \<Rightarrow> stmt list \<Rightarrow> trace \<Rightarrow> int \<times> trace" where
  "run_seq env [] tr = (0, tr)"
| "run_seq env (Dsi_generic_write_seq d # rest) tr =
     (case mipi_dsi_generic_write env d tr of
        (res, tr') \<Rightarrow>
          let ret = to_int res in
          if ret < 0 then (ret, tr') else run_seq env rest tr')"
| "run_seq env (Dsi_dcs_write_seq cmd d # rest) tr =
     (case mipi_dsi_dcs_write env cmd d tr of
        (res, tr') \<Rightarrow>
          let ret = to_int res in
          if ret < 0 then (ret, tr') else run_seq env rest tr')"
| "run_seq env (Stmt_msleep ms # rest) tr = run_seq env rest (msleep ms tr)"
| "run_seq env (Stmt_dev_info msg # rest) tr = run_seq env rest (dev_info msg tr)"

subsection \<open>jh057n00900\<close>

definition jh057n_stmts :: "stmt list" where
  "jh057n_stmts =
   [Dsi_generic_write_seq [ST7703_CMD_SETEXTC,
      0xF1, 0x12, 0x83],
    Dsi_generic_write_seq [ST7703_CMD_SETRGBIF,
      0x10, 0x10, 0x05, 0x05, 0x03, 0xFF, 0x00, 0x00,
      0x00, 0x00],
    Dsi_generic_write_seq [ST7703_CMD_SETSCR,
      0x73, 0x73, 0x50, 0x50, 0x00, 0x00, 0x08, 0x70,
      0x00],
    Dsi_generic_write_seq [ST7703_CMD_SETVDC, 0x4E],
    Dsi_generic_write_seq [ST7703_CMD_SETPANEL, 0x0B],
    Dsi_generic_write_seq [ST7703_CMD_SETCYC, 0x80],
    Dsi_generic_write_seq [ST7703_CMD_SETDISP, 0xF0, 0x12, 0x30],
    Dsi_generic_write_seq [ST7703_CMD_SETEQ,
      0x07, 0x07, 0x0B, 0x0B, 0x03, 0x0B, 0x00, 0x00,
      0x00, 0x00, 0xFF, 0x00, 0xC0, 0x10],
    Dsi_generic_write_seq [ST7703_CMD_SETBGP, 0x08, 0x08],
    Stmt_msleep 20,
    Dsi_generic_write_seq [ST7703_CMD_SETVCOM, 0x3F, 0x3F],
    Dsi_generic_write_seq [ST7703_CMD_UNKNOWN_BF, 0x02, 0x11, 0x00],
    Dsi_generic_write_seq [ST7703_CMD_SETGIP1,
      0x82, 0x10, 0x06, 0x05, 0x9E, 0x0A, 0xA5, 0x12,
      0x31, 0x23, 0x37, 0x83, 0x04, 0xBC, 0x27, 0x38,
      0x0C, 0x00, 0x03, 0x00, 0x00, 0x00, 0x0C, 0x00,
      0x03, 0x00, 0x00, 0x00, 0x75, 0x75, 0x31, 0x88,
      0x88, 0x88, 0x88, 0x88, 0x88, 0x13, 0x88, 0x64,
      0x64, 0x20, 0x88, 0x88, 0x88, 0x88, 0x88, 0x88,
      0x02, 0x88, 0x00, 0x00, 0x00, 0x00, 0x00, 0x00,
      0x00, 0x00, 0x00, 0x00, 0x00, 0x00, 0x00],
    Dsi_generic_write_seq [ST7703_CMD_SETGIP2,
      0x02, 0x21, 0x00, 0x00, 0x00, 0x00, 0x00, 0x00,
      0x00, 0x00, 0x00, 0x00, 0x02, 0x46, 0x02, 0x88,
      0x88, 0x88, 0x88, 0x88, 0x88, 0x64, 0x88, 0x13,
      0x57, 0x13, 0x88, 0x88, 0x88, 0x88, 0x88, 0x88,
      0x75, 0x88, 0x23, 0x14, 0x00, 0x00, 0x02, 0x00,
      0x00, 0x00, 0x00, 0x00, 0x00, 0x00, 0x00, 0x00,
      0x00, 0x00, 0x00, 0x00, 0x00, 0x00, 0x30, 0x0A,
      0xA5, 0x00, 0x00, 0x00, 0x00],
    Dsi_generic_write_seq [ST7703_CMD_SETGAMMA,
      0x00, 0x09, 0x0E, 0x29, 0x2D, 0x3C, 0x41, 0x37,
      0x07, 0x0B, 0x0D, 0x10, 0x11, 0x0F, 0x10, 0x11,
      0x18, 0x00, 0x09, 0x0E, 0x29, 0x2D, 0x3C, 0x41,
      0x37, 0x07, 0x0B, 0x0D, 0x10, 0x11, 0x0F, 0x10,
      0x11, 0x18]]"

definition jh057n_init_sequence :: "env \<Rightarrow> trace \<Rightarrow> int \<times> trace" where
  "jh057n_init_sequence env tr = run_seq env jh057n_stmts tr"

subsection \<open>xbd599\<close>

definition xbd599_stmts :: "stmt list" where
  "xbd599_stmts =
   [Dsi_dcs_write_seq ST7703_CMD_SETEXTC [0xF1, 0x12, 0x83],
    Dsi_dcs_write_seq ST7703_CMD_SETMIPI [0x33, 0x81, 0x05, 0xF9, 0x0E, 0x0E, 0x20,
      0x00, 0x00, 0x00, 0x00, 0x00, 0x00, 0x00, 0x44, 0x25, 0x00, 0x91, 0x0a, 0x00,
      0x00, 0x02, 0x4F, 0x11, 0x00, 0x00, 0x37],
    Dsi_dcs_write_seq ST7703_CMD_SETPOWER_EXT [0x25, 0x22, 0x20, 0x03],
    Dsi_dcs_write_seq ST7703_CMD_SETRGBIF [0x10, 0x10, 0x05, 0x05, 0x03, 0xFF, 0x00,
      0x00, 0x00, 0x00],
    Dsi_dcs_write_seq ST7703_CMD_SETSCR [0x73, 0x73, 0x50, 0x50, 0x00, 0xC0, 0x08, 0x70,
      0x00],
    Dsi_dcs_write_seq ST7703_CMD_SETVDC [0x4E],
    Dsi_dcs_write_seq ST7703_CMD_SETPANEL [0x0B],
    Dsi_dcs_write_seq ST7703_CMD_SETCYC [0x80],
    Dsi_dcs_write_seq ST7703_CMD_SETDISP [0xF0, 0x12, 0xF0],
    Dsi_dcs_write_seq ST7703_CMD_SETEQ [0x00, 0x00, 0x0B, 0x0B, 0x10, 0x10, 0x00, 0x00,
      0x00, 0x00, 0xFF, 0x00, 0xC0, 0x10],
    Dsi_dcs_write_seq ST7703_CMD_UNKNOWN_C6 [0x01, 0x00, 0xFF, 0xFF, 0x00],
    Dsi_dcs_write_seq ST7703_CMD_SETPOWER [0x74, 0x00, 0x32, 0x32, 0x77, 0xF1, 0xFF,
      0xFF, 0xCC, 0xCC, 0x77, 0x77],
    Dsi_dcs_write_seq ST7703_CMD_SETBGP [0x07, 0x07],
    Stmt_msleep 20,
    Dsi_dcs_write_seq ST7703_CMD_SETVCOM [0x2C, 0x2C],
    Dsi_dcs_write_seq ST7703_CMD_UNKNOWN_BF [0x02, 0x11, 0x00],
    Dsi_dcs_write_seq ST7703_CMD_SETGIP1 [0x82, 0x10, 0x06, 0x05, 0xA2, 0x0A, 0xA5,
      0x12, 0x31, 0x23, 0x37, 0x83, 0x04, 0xBC, 0x27, 0x38, 0x0C, 0x00, 0x03, 0x00,
      0x00, 0x00, 0x0C, 0x00, 0x03, 0x00, 0x00, 0x00, 0x75, 0x75, 0x31, 0x88, 0x88,
      0x88, 0x88, 0x88, 0x88, 0x13, 0x88, 0x64, 0x64, 0x20, 0x88, 0x88, 0x88, 0x88,
      0x88, 0x88, 0x02, 0x88, 0x00, 0x00, 0x00, 0x00, 0x00, 0x00, 0x00, 0x00, 0x00,
      0x00, 0x00, 0x00, 0x00],
    Dsi_dcs_write_seq ST7703_CMD_SETGIP2 [0x02, 0x21, 0x00, 0x00, 0x00, 0x00, 0x00,
      0x00, 0x00, 0x00, 0x00, 0x00, 0x02, 0x46, 0x02, 0x88, 0x88, 0x88, 0x88, 0x88,
      0x88, 0x64, 0x88, 0x13, 0x57, 0x13, 0x88, 0x88, 0x88, 0x88, 0x88, 0x88, 0x75,
      0x88, 0x23, 0x14, 0x00, 0x00, 0x02, 0x00, 0x00, 0x00, 0x00, 0x00, 0x00, 0x00,
      0x00, 0x00, 0x00, 0x00, 0x00, 0x00, 0x00, 0x00, 0x03, 0x0A, 0xA5, 0x00, 0x00,
      0x00, 0x00],
    Dsi_dcs_write_seq ST7703_CMD_SETGAMMA [0x00, 0x09, 0x0D, 0x23, 0x27, 0x3C, 0x41,
      0x35, 0x07, 0x0D, 0x0E, 0x12, 0x13, 0x10, 0x12, 0x12, 0x18, 0x00, 0x09, 0x0D,
      0x23, 0x27, 0x3C, 0x41, 0x35, 0x07, 0x0D, 0x0E, 0x12, 0x13, 0x10, 0x12, 0x12,
      0x18]]"

definition xbd599_init_sequence :: "env \<Rightarrow> trace \<Rightarrow> int \<times> trace" where
  "xbd599_init_sequence env tr = run_seq env xbd599_stmts tr"

subsection \<open>atm0784\<close>

definition atm0784_stmts :: "stmt list" where
  "atm0784_stmts =
   [Stmt_dev_info ''Initializing atm0784...'',
    Stmt_dev_info ''Set EXTC'',
    Dsi_generic_write_seq [0x04, 0xB9],
    Dsi_generic_write_seq [0xF1],
    Dsi_generic_write_seq [0x12],
    Dsi_generic_write_seq [0x83],
    Stmt_dev_info ''Set RSO'',
    Dsi_generic_write_seq [0x04, 0xB2],
    Dsi_generic_write_seq [0xC8],
    Dsi_generic_write_seq [0x25],
    Dsi_generic_write_seq [0xF0],
    Stmt_dev_info ''Set RGB'',
    Dsi_generic_write_seq [0x0B, 0xB3],
    Dsi_generic_write_seq [0x10],
    Dsi_generic_write_seq [0x10],
    Dsi_generic_write_seq [0x28],
    Dsi_generic_write_seq [0x28],
    Dsi_generic_write_seq [0x03],
    Dsi_generic_write_seq [0xFF],
    Dsi_generic_write_seq [0x00],
    Dsi_generic_write_seq [0x00],
    Dsi_generic_write_seq [0x00],
    Dsi_generic_write_seq [0x00],
    Stmt_dev_info ''Set Panel Inversion'',
    Dsi_generic_write_seq [0x02, 0xB4],
    Dsi_generic_write_seq [0x80],
    Stmt_dev_info ''Set BGP'',
    Dsi_generic_write_seq [0x03, 0xB5],
    Dsi_generic_write_seq [0x0B],
    Dsi_generic_write_seq [0x0B],
    Stmt_dev_info ''Set VCOM'',
    Dsi_generic_write_seq [0x03, 0xB6],
    Dsi_generic_write_seq [0x50],
    Dsi_generic_write_seq [0x50],
    Stmt_dev_info ''Set ECP'',
    Dsi_generic_write_seq [0x02, 0xB8],
    Dsi_generic_write_seq [0x26],
    Stmt_dev_info ''Set DSI'',
    Dsi_generic_write_seq [0x1C, 0xBA],
    Dsi_generic_write_seq [0x81],
    Dsi_generic_write_seq [0x05],
    Dsi_generic_write_seq [0xF9],
    Dsi_generic_write_seq [0x0E],
    Dsi_generic_write_seq [0x0E],
    Dsi_generic_write_seq [0x20],
    Dsi_generic_write_seq [0x00],
    Dsi_generic_write_seq [0x00],
    Dsi_generic_write_seq [0x00],
    Dsi_generic_write_seq [0x00],
    Dsi_generic_write_seq [0x00],
    Dsi_generic_write_seq [0x00],
    Dsi_generic_write_seq [0x00],
    Dsi_generic_write_seq [0x44],
    Dsi_generic_write_seq [0x25],
    Dsi_generic_write_seq [0x00],
    Dsi_generic_write_seq [0x90],
    Dsi_generic_write_seq [0x0A],
    Dsi_generic_write_seq [0x00],
    Dsi_generic_write_seq [0x00],
    Dsi_generic_write_seq [0x01],
    Dsi_generic_write_seq [0x4F],
    Dsi_generic_write_seq [0x01],
    Dsi_generic_write_seq [0x00],
    Dsi_generic_write_seq [0x00],
    Dsi_generic_write_seq [0x37],
    Stmt_dev_info ''Set VDC'',
    Dsi_generic_write_seq [0x02, 0xBC],
    Dsi_generic_write_seq [0x46],
    Stmt_dev_info ''Set PCR'',
    Dsi_generic_write_seq [0x04, 0xBF],
    Dsi_generic_write_seq [0x02],
    Dsi_generic_write_seq [0x11],
    Dsi_generic_write_seq [0x00],
    Stmt_dev_info ''Set SCR'',
    Dsi_generic_write_seq [0x0A, 0xC0],
    Dsi_generic_write_seq [0x73],
    Dsi_generic_write_seq [0x73],
    Dsi_generic_write_seq [0x50],
    Dsi_generic_write_seq [0x50],
    Dsi_generic_write_seq [0x00],
    Dsi_generic_write_seq [0x00],
    Dsi_generic_write_seq [0x08],
    Dsi_generic_write_seq [0x70],
    Dsi_generic_write_seq [0x00],
    Stmt_dev_info ''Set POWER'',
    Dsi_generic_write_seq [0x0D, 0xC1],
    Dsi_generic_write_seq [0x25],
    Dsi_generic_write_seq [0x00],
    Dsi_generic_write_seq [0x32],
    Dsi_generic_write_seq [0x32],
    Dsi_generic_write_seq [0x99],
    Dsi_generic_write_seq [0xE4],
    Dsi_generic_write_seq [0xFF],
    Dsi_generic_write_seq [0xFF],
    Dsi_generic_write_seq [0xEE],
    Dsi_generic_write_seq [0xEE],
    Dsi_generic_write_seq [0x77],
    Dsi_generic_write_seq [0x77],
    Stmt_dev_info ''Set Panel'',
    Dsi_generic_write_seq [0x02, 0xCC],
    Dsi_generic_write_seq [0x0B],
    Stmt_dev_info ''Set Gamma2.5'',
    Dsi_generic_write_seq [0x23, 0xE0],
    Dsi_generic_write_seq [0x00],
    Dsi_generic_write_seq [0x0D],
    Dsi_generic_write_seq [0x14],
    Dsi_generic_write_seq [0x2C],
    Dsi_generic_write_seq [0x32],
    Dsi_generic_write_seq [0x3F],
    Dsi_generic_write_seq [0x47],
    Dsi_generic_write_seq [0x3C],
    Dsi_generic_write_seq [0x07],
    Dsi_generic_write_seq [0x0E],
    Dsi_generic_write_seq [0x10],
    Dsi_generic_write_seq [0x13],
    Dsi_generic_write_seq [0x15],
    Dsi_generic_write_seq [0x13],
    Dsi_generic_write_seq [0x14],
    Dsi_generic_write_seq [0x0F],
    Dsi_generic_write_seq [0x17],
    Dsi_generic_write_seq [0x00],
    Dsi_generic_write_seq [0x0D],
    Dsi_generic_write_seq [0x14],
    Dsi_generic_write_seq [0x2C],
    Dsi_generic_write_seq [0x32],
    Dsi_generic_write_seq [0x3F],
    Dsi_generic_write_seq [0x47],
    Dsi_generic_write_seq [0x3C],
    Dsi_generic_write_seq [0x07],
    Dsi_generic_write_seq [0x0E],
    Dsi_generic_write_seq [0x10],
    Dsi_generic_write_seq [0x13],
    Dsi_generic_write_seq [0x15],
    Dsi_generic_write_seq [0x13],
    Dsi_generic_write_seq [0x14],
    Dsi_generic_write_seq [0x0F],
    Dsi_generic_write_seq [0x17],
    Stmt_dev_info ''Set EQ'',
    Dsi_generic_write_seq [0x0F, 0xE3],
    Dsi_generic_write_seq [0x07],
    Dsi_generic_write_seq [0x07],
    Dsi_generic_write_seq [0x0B],
    Dsi_generic_write_seq [0x0B],
    Dsi_generic_write_seq [0x03],
    Dsi_generic_write_seq [0x03],
    Dsi_generic_write_seq [0x00],
    Dsi_generic_write_seq [0x00],
    Dsi_generic_write_seq [0x00],
    Dsi_generic_write_seq [0x00],
    Dsi_generic_write_seq [0xFF],
    Dsi_generic_write_seq [0x80],
    Dsi_generic_write_seq [0xC0],
    Dsi_generic_write_seq [0x10],
    Stmt_dev_info ''Set GIP'',
    Dsi_generic_write_seq [0x40, 0xE9],
    Dsi_generic_write_seq [0xC8],
    Dsi_generic_write_seq [0x10],
    Dsi_generic_write_seq [0x0A],
    Dsi_generic_write_seq [0x10],
    Dsi_generic_write_seq [0x0E],
    Dsi_generic_write_seq [0x80],
    Dsi_generic_write_seq [0x81],
    Dsi_generic_write_seq [0x12],
    Dsi_generic_write_seq [0x31],
    Dsi_generic_write_seq [0x23],
    Dsi_generic_write_seq [0x4F],
    Dsi_generic_write_seq [0x86],
    Dsi_generic_write_seq [0x80],
    Dsi_generic_write_seq [0x38],
    Dsi_generic_write_seq [0x47],
    Dsi_generic_write_seq [0x08],
    Dsi_generic_write_seq [0x00],
    Dsi_generic_write_seq [0x0E],
    Dsi_generic_write_seq [0x0C],
    Dsi_generic_write_seq [0x00],
    Dsi_generic_write_seq [0x02],
    Dsi_generic_write_seq [0x00],
    Dsi_generic_write_seq [0x00],
    Dsi_generic_write_seq [0x0E],
    Dsi_generic_write_seq [0x0C],
    Dsi_generic_write_seq [0x00],
    Dsi_generic_write_seq [0x02],
    Dsi_generic_write_seq [0x00],
    Dsi_generic_write_seq [0x8F],
    Dsi_generic_write_seq [0x94],
    Dsi_generic_write_seq [0x46],
    Dsi_generic_write_seq [0x02],
    Dsi_generic_write_seq [0x8A],
    Dsi_generic_write_seq [0x02],
    Dsi_generic_write_seq [0x88],
    Dsi_generic_write_seq [0x88],
    Dsi_generic_write_seq [0x88],
    Dsi_generic_write_seq [0x88],
    Dsi_generic_write_seq [0x88],
    Dsi_generic_write_seq [0x8F],
    Dsi_generic_write_seq [0x94],
    Dsi_generic_write_seq [0x57],
    Dsi_generic_write_seq [0x13],
    Dsi_generic_write_seq [0x8A],
    Dsi_generic_write_seq [0x13],
    Dsi_generic_write_seq [0x88],
    Dsi_generic_write_seq [0x88],
    Dsi_generic_write_seq [0x88],
    Dsi_generic_write_seq [0x88],
    Dsi_generic_write_seq [0x88],
    Dsi_generic_write_seq [0x00],
    Dsi_generic_write_seq [0x00],
    Dsi_generic_write_seq [0x00],
    Dsi_generic_write_seq [0x01],
    Dsi_generic_write_seq [0x00],
    Dsi_generic_write_seq [0x80],
    Dsi_generic_write_seq [0x38],
    Dsi_generic_write_seq [0x00],
    Dsi_generic_write_seq [0x00],
    Dsi_generic_write_seq [0x00],
    Dsi_generic_write_seq [0x00],
    Dsi_generic_write_seq [0x00],
    Dsi_generic_write_seq [0x00],
    Stmt_dev_info ''Set GIP2'',
    Dsi_generic_write_seq [0x3E, 0xEA],
    Dsi_generic_write_seq [0x00],
    Dsi_generic_write_seq [0x1A],
    Dsi_generic_write_seq [0x00],
    Dsi_generic_write_seq [0x00],
    Dsi_generic_write_seq [0x00],
    Dsi_generic_write_seq [0x00],
    Dsi_generic_write_seq [0x01],
    Dsi_generic_write_seq [0x0C],
    Dsi_generic_write_seq [0x41],
    Dsi_generic_write_seq [0x01],
    Dsi_generic_write_seq [0x02],
    Dsi_generic_write_seq [0x00],
    Dsi_generic_write_seq [0xF8],
    Dsi_generic_write_seq [0x94],
    Dsi_generic_write_seq [0x31],
    Dsi_generic_write_seq [0x75],
    Dsi_generic_write_seq [0x8A],
    Dsi_generic_write_seq [0x31],
    Dsi_generic_write_seq [0x88],
    Dsi_generic_write_seq [0x88],
    Dsi_generic_write_seq [0x88],
    Dsi_generic_write_seq [0x88],
    Dsi_generic_write_seq [0x88],
    Dsi_generic_write_seq [0xF8],
    Dsi_generic_write_seq [0x94],
    Dsi_generic_write_seq [0x20],
    Dsi_generic_write_seq [0x64],
    Dsi_generic_write_seq [0x8A],
    Dsi_generic_write_seq [0x20],
    Dsi_generic_write_seq [0x88],
    Dsi_generic_write_seq [0x88],
    Dsi_generic_write_seq [0x88],
    Dsi_generic_write_seq [0x88],
    Dsi_generic_write_seq [0x88],
    Dsi_generic_write_seq [0x23],
    Dsi_generic_write_seq [0x00],
    Dsi_generic_write_seq [0x00],
    Dsi_generic_write_seq [0x01],
    Dsi_generic_write_seq [0x28],
    Dsi_generic_write_seq [0x00],
    Dsi_generic_write_seq [0x00],
    Dsi_generic_write_seq [0x00],
    Dsi_generic_write_seq [0x00],
    Dsi_generic_write_seq [0x00],
    Dsi_generic_write_seq [0x00],
    Dsi_generic_write_seq [0x00],
    Dsi_generic_write_seq [0x00],
    Dsi_generic_write_seq [0x00],
    Dsi_generic_write_seq [0x00],
    Dsi_generic_write_seq [0x00],
    Dsi_generic_write_seq [0x05],
    Dsi_generic_write_seq [0x0B],
    Dsi_generic_write_seq [0x00],
    Dsi_generic_write_seq [0x00],
    Dsi_generic_write_seq [0x40],
    Dsi_generic_write_seq [0x80],
    Dsi_generic_write_seq [0x81],
    Dsi_generic_write_seq [0x40],
    Dsi_generic_write_seq [0x80],
    Dsi_generic_write_seq [0x81],
    Dsi_generic_write_seq [0x00]]"

definition atm0784_init_sequence :: "env \<Rightarrow> trace \<Rightarrow> int \<times> trace" where
  "atm0784_init_sequence env tr = run_seq env atm0784_stmts tr"

subsection \<open>Panel descriptors and the device instance\<close>

datatype drm_mode_flag = DRM_MODE_FLAG_NHSYNC | DRM_MODE_FLAG_NVSYNC

record drm_display_mode =
  hdisplay :: nat
  hsync_start :: nat
  hsync_end :: nat
  htotal :: nat
  vdisplay :: nat
  vsync_start :: nat
  vsync_end :: nat
  vtotal :: nat
  clock :: nat
  flags :: "drm_mode_flag set"
  width_mm :: nat
  height_mm :: nat

datatype mipi_dsi_mode_flag =
  MIPI_DSI_MODE_VIDEO | MIPI_DSI_MODE_VIDEO_BURST | MIPI_DSI_MODE_VIDEO_SYNC_PULSE

datatype mipi_dsi_pixel_format = MIPI_DSI_FMT_RGB888

text \<open>
  The function pointer \<open>init_sequence\<close> takes the device instance in C and uses only its
  \<open>dev\<close>, the DSI device: here it takes the environment and the trace.
\<close>

record st7703_panel_desc =
  mode :: drm_display_mode
  lanes :: nat
  mode_flags :: "mipi_dsi_mode_flag set"
  format :: mipi_dsi_pixel_format
  init_sequence :: "env \<Rightarrow> trace \<Rightarrow> int \<times> trace"

definition jh057n00900_mode :: drm_display_mode where
  "jh057n00900_mode =
    \<lparr> hdisplay = 720,
      hsync_start = 720 + 90,
      hsync_end = 720 + 90 + 20,
      htotal = 720 + 90 + 20 + 20,
      vdisplay = 1440,
      vsync_start = 1440 + 20,
      vsync_end = 1440 + 20 + 4,
      vtotal = 1440 + 20 + 4 + 12,
      clock = 75276,
      flags = {DRM_MODE_FLAG_NHSYNC, DRM_MODE_FLAG_NVSYNC},
      width_mm = 65,
      height_mm = 130 \<rparr>"

definition jh057n00900_panel_desc :: st7703_panel_desc where
  "jh057n00900_panel_desc =
    \<lparr> mode = jh057n00900_mode,
      lanes = 4,
      mode_flags =
        {MIPI_DSI_MODE_VIDEO, MIPI_DSI_MODE_VIDEO_BURST, MIPI_DSI_MODE_VIDEO_SYNC_PULSE},
      format = MIPI_DSI_FMT_RGB888,
      init_sequence = jh057n_init_sequence \<rparr>"

definition xbd599_mode :: drm_display_mode where
  "xbd599_mode =
    \<lparr> hdisplay = 720,
      hsync_start = 720 + 40,
      hsync_end = 720 + 40 + 40,
      htotal = 720 + 40 + 40 + 40,
      vdisplay = 1440,
      vsync_start = 1440 + 18,
      vsync_end = 1440 + 18 + 10,
      vtotal = 1440 + 18 + 10 + 17,
      clock = 69000,
      flags = {DRM_MODE_FLAG_NHSYNC, DRM_MODE_FLAG_NVSYNC},
      width_mm = 68,
      height_mm = 136 \<rparr>"

definition xbd599_desc :: st7703_panel_desc where
  "xbd599_desc =
    \<lparr> mode = xbd599_mode,
      lanes = 4,
      mode_flags = {MIPI_DSI_MODE_VIDEO, MIPI_DSI_MODE_VIDEO_SYNC_PULSE},
      format = MIPI_DSI_FMT_RGB888,
      init_sequence = xbd599_init_sequence \<rparr>"

definition atm0784_mode :: drm_display_mode where
  "atm0784_mode =
    \<lparr> hdisplay = 540,
      hsync_start = 540 + 35,
      hsync_end = 540 + 35 + 35,
      htotal = 540 + 35 + 35 + 35,
      vdisplay = 1280,
      vsync_start = 1280 + 16,
      vsync_end = 1280 + 16 + 4,
      vtotal = 1280 + 16 + 4 + 21,
      clock = 25561,
      flags = {DRM_MODE_FLAG_NHSYNC, DRM_MODE_FLAG_NVSYNC},
      width_mm = 60,
      height_mm = 190 \<rparr>"

definition atm0784_desc :: st7703_panel_desc where
  "atm0784_desc =
    \<lparr> mode = atm0784_mode,
      lanes = 2,
      mode_flags = {MIPI_DSI_MODE_VIDEO, MIPI_DSI_MODE_VIDEO_SYNC_PULSE},
      format = MIPI_DSI_FMT_RGB888,
      init_sequence = atm0784_init_sequence \<rparr>"

text \<open>
  The device instance. The handles \<open>reset_gpio\<close>, \<open>vcc\<close> and \<open>iovcc\<close> are fixed at probe
  time and name the target of an operation: they are the constructors \<open>Vcc\<close>, \<open>Iovcc\<close>
  and the single GPIO of the trace. What changes at run time is \<open>prepared\<close>.
\<close>

record st7703 =
  prepared :: bool
  desc :: st7703_panel_desc

subsection \<open>The panel operations\<close>

definition st7703_enable :: "env \<Rightarrow> st7703 \<Rightarrow> trace \<Rightarrow> int \<times> st7703 \<times> trace" where
  "st7703_enable env ctx tr =
    (case init_sequence (desc ctx) env tr of (ret, tr1) \<Rightarrow>
     if ret < 0 then (ret, ctx, dev_err ''Panel init sequence failed: %d'' ret tr1)
     else
      (case mipi_dsi_dcs_exit_sleep_mode env (msleep 20 tr1) of (ret, tr2) \<Rightarrow>
       if ret < 0 then (ret, ctx, dev_err ''Failed to exit sleep mode: %d'' ret tr2)
       else
        (case mipi_dsi_dcs_set_display_on env (msleep 250 tr2) of (ret, tr3) \<Rightarrow>
         if ret \<noteq> 0 then (ret, ctx, tr3)
         else (0, ctx, dev_info ''Panel init sequence done'' (msleep 50 tr3)))))"

definition st7703_disable :: "env \<Rightarrow> st7703 \<Rightarrow> trace \<Rightarrow> int \<times> st7703 \<times> trace" where
  "st7703_disable env ctx tr =
    (case mipi_dsi_dcs_set_display_off env tr of (ret, tr1) \<Rightarrow>
     let tr2 = (if ret < 0 then dev_err ''Failed to turn off the display: %d'' ret tr1
                else tr1)
     in
      (case mipi_dsi_dcs_enter_sleep_mode env tr2 of (ret, tr3) \<Rightarrow>
       let tr4 = (if ret < 0 then dev_err ''Failed to enter sleep mode: %d'' ret tr3
                  else tr3)
       in (0, ctx, tr4)))"

definition st7703_unprepare :: "env \<Rightarrow> st7703 \<Rightarrow> trace \<Rightarrow> int \<times> st7703 \<times> trace" where
  "st7703_unprepare env ctx tr =
    (if \<not> prepared ctx then (0, ctx, tr)
     else
      let tr1 = gpiod_set_value_cansleep 1 tr;
          tr2 = snd (regulator_disable env Iovcc tr1);
          tr3 = snd (regulator_disable env Vcc tr2)
      in (0, ctx\<lparr>prepared := False\<rparr>, tr3))"

definition st7703_prepare :: "env \<Rightarrow> st7703 \<Rightarrow> trace \<Rightarrow> int \<times> st7703 \<times> trace" where
  "st7703_prepare env ctx tr =
    (if prepared ctx then (0, ctx, tr)
     else
      (case regulator_enable env Vcc (dev_info ''Resetting the panel'' tr) of (ret, tr1) \<Rightarrow>
       if ret < 0 then (ret, ctx, dev_err ''Failed to enable vcc supply: %d'' ret tr1)
       else
        (case regulator_enable env Iovcc tr1 of (ret, tr2) \<Rightarrow>
         if ret < 0 then
           (ret, ctx,
            snd (regulator_disable env Vcc
                   (dev_err ''Failed to enable iovcc supply: %d'' ret tr2)))
         else
           let tr3 = gpiod_set_value_cansleep 1 tr2;
               tr4 = usleep_range 20 40 tr3;
               tr5 = gpiod_set_value_cansleep 0 tr4;
               tr6 = msleep 20 tr5
           in (0, ctx\<lparr>prepared := True\<rparr>, tr6))))"

subsection \<open>The DRM core entry points, shutdown and removal\<close>

text \<open>
  Modelled from the spec: \<open>drm_panel_prepare\<close>, \<open>drm_panel_enable\<close>, \<open>drm_panel_disable\<close>
  and \<open>drm_panel_unprepare\<close> belong to the DRM core, which is not part of the driver's
  file. Through them the display pipeline calls the four lifecycle operations that the
  driver registers in \<open>st7703_drm_funcs\<close>; backlight handling is outside the driver.
\<close>

definition drm_panel_prepare :: "env \<Rightarrow> st7703 \<Rightarrow> trace \<Rightarrow> int \<times> st7703 \<times> trace" where
  "drm_panel_prepare = st7703_prepare"

definition drm_panel_enable :: "env \<Rightarrow> st7703 \<Rightarrow> trace \<Rightarrow> int \<times> st7703 \<times> trace" where
  "drm_panel_enable = st7703_enable"

definition drm_panel_disable :: "env \<Rightarrow> st7703 \<Rightarrow> trace \<Rightarrow> int \<times> st7703 \<times> trace" where
  "drm_panel_disable = st7703_disable"

definition drm_panel_unprepare :: "env \<Rightarrow> st7703 \<Rightarrow> trace \<Rightarrow> int \<times> st7703 \<times> trace" where
  "drm_panel_unprepare = st7703_unprepare"

definition st7703_shutdown :: "env \<Rightarrow> st7703 \<Rightarrow> trace \<Rightarrow> st7703 \<times> trace" where
  "st7703_shutdown env ctx tr =
    (case drm_panel_unprepare env ctx tr of (ret, ctx1, tr1) \<Rightarrow>
     let tr2 = (if ret < 0 then dev_err ''Failed to unprepare panel: %d'' ret tr1 else tr1)
     in
      (case drm_panel_disable env ctx1 tr2 of (ret, ctx2, tr3) \<Rightarrow>
       let tr4 = (if ret < 0 then dev_err ''Failed to disable panel: %d'' ret tr3 else tr3)
       in (ctx2, tr4)))"

definition st7703_remove :: "env \<Rightarrow> st7703 \<Rightarrow> trace \<Rightarrow> int \<times> st7703 \<times> trace" where
  "st7703_remove env ctx tr =
    (case st7703_shutdown env ctx tr of (ctx1, tr1) \<Rightarrow>
     (case call env Mipi_dsi_detach tr1 of (ret, tr2) \<Rightarrow>
      let tr3 = (if ret < 0 then dev_err ''Failed to detach from DSI host: %d'' ret tr2
                 else tr2);
          tr4 = emit Drm_panel_remove tr3;
          tr5 = emit Debugfs_remove_recursive tr4
      in (0, ctx1, tr5)))"

text \<open>
  The debugfs hook that shows all pixels for \<open>val\<close> seconds and then cycles the panel.
  \<open>val\<close> is a \<open>u64\<close>; \<open>msleep\<close> takes an \<open>unsigned int\<close>, so the product is truncated to
  32 bits.
\<close>

definition allpixelson_set :: "env \<Rightarrow> 64 word \<Rightarrow> st7703 \<Rightarrow> trace \<Rightarrow> int \<times> st7703 \<times> trace" where
  "allpixelson_set env val ctx tr =
    (case mipi_dsi_generic_write env [ST7703_CMD_ALL_PIXEL_ON]
            (dev_dbg ''Setting all pixels on'' tr) of (res, tr1) \<Rightarrow>
     let ret = to_int res in
     if ret < 0 then (ret, ctx, tr1)
     else
      let tr2 = msleep (unat (ucast (val * 1000) :: 32 word)) tr1 in
      (case drm_panel_disable env ctx tr2 of (r3, ctx3, tr3) \<Rightarrow>
       (case drm_panel_unprepare env ctx3 tr3 of (r4, ctx4, tr4) \<Rightarrow>
        (case drm_panel_prepare env ctx4 tr4 of (r5, ctx5, tr5) \<Rightarrow>
         (case drm_panel_enable env ctx5 tr5 of (r6, ctx6, tr6) \<Rightarrow> (0, ctx6, tr6))))))"

subsection \<open>Observing a trace\<close>

text \<open>
  The operations that go over the DSI bus, the operations on a regulator, on the reset
  line, and the waits.
\<close>

fun is_bus :: "op \<Rightarrow> bool" where
  "is_bus (Mipi_dsi_generic_write d) = True"
| "is_bus (Mipi_dsi_dcs_write cmd d) = True"
| "is_bus Mipi_dsi_dcs_exit_sleep_mode = True"
| "is_bus Mipi_dsi_dcs_set_display_on = True"
| "is_bus Mipi_dsi_dcs_set_display_off = True"
| "is_bus Mipi_dsi_dcs_enter_sleep_mode = True"
| "is_bus x = False"

fun is_regulator :: "op \<Rightarrow> bool" where
  "is_regulator (Regulator_enable r) = True"
| "is_regulator (Regulator_disable r) = True"
| "is_regulator x = False"

fun is_reset :: "op \<Rightarrow> bool" where
  "is_reset (Gpiod_set_value_cansleep v) = True"
| "is_reset x = False"

fun is_delay :: "op \<Rightarrow> bool" where
  "is_delay (Msleep ms) = True"
| "is_delay (Usleep_range lo hi) = True"
| "is_delay x = False"

definition bus_ops :: "trace \<Rightarrow> op list" where
  "bus_ops tr = filter is_bus tr"

definition regulator_ops :: "trace \<Rightarrow> op list" where
  "regulator_ops tr = filter is_regulator tr"

definition reset_ops :: "trace \<Rightarrow> op list" where
  "reset_ops tr = filter is_reset tr"

definition delays :: "trace \<Rightarrow> op list" where
  "delays tr = filter is_delay tr"

text \<open>The operation a statement of an init sequence issues.\<close>

fun stmt_op :: "stmt \<Rightarrow> op" where
  "stmt_op (Dsi_generic_write_seq d) = Mipi_dsi_generic_write d"
| "stmt_op (Dsi_dcs_write_seq cmd d) = Mipi_dsi_dcs_write cmd d"
| "stmt_op (Stmt_msleep ms) = Msleep ms"
| "stmt_op (Stmt_dev_info msg) = Dev_info msg"

text \<open>
  Environments. \<open>accept_all\<close> answers 0 to everything. \<open>fails_at n r\<close> answers \<open>r\<close>
  to the \<open>n\<close>-th operation of the history and 0 to every other one; \<open>fails_from n r\<close> answers \<open>r\<close> from the \<open>n\<close>-th operation on.
\<close>

definition accept_all :: env where
  "accept_all h = 0"

definition fails_at :: "nat \<Rightarrow> int \<Rightarrow> env" where
  "fails_at n r h = (if length h = n then r else 0)"

definition fails_from :: "nat \<Rightarrow> int \<Rightarrow> env" where
  "fails_from n r h = (if n \<le> length h then r else 0)"

text \<open>The operations of a model's init sequence when every write is accepted.\<close>

definition script_ops :: "st7703_panel_desc \<Rightarrow> op list" where
  "script_ops d = snd (init_sequence d accept_all [])"

definition supported :: "st7703_panel_desc list" where
  "supported = [jh057n00900_panel_desc, xbd599_desc, atm0784_desc]"

text \<open>
  \<open>through_write k xs\<close> is the shortest prefix of \<open>xs\<close> that holds \<open>k\<close> bus operations:
  the history at the moment the \<open>k\<close>-th write (counted from 1) has just been issued.
\<close>

fun through_write :: "nat \<Rightarrow> op list \<Rightarrow> op list" where
  "through_write 0 xs = []"
| "through_write (Suc k) [] = []"
| "through_write (Suc k) (x # xs) =
     (if is_bus x then x # through_write k xs else x # through_write (Suc k) xs)"

text \<open>
  The bytes a bus write carries: for a generic write the whole payload, for a DCS write
  the instruction byte followed by its arguments.
\<close>

fun payload :: "op \<Rightarrow> u8 list" where
  "payload (Mipi_dsi_generic_write d) = d"
| "payload (Mipi_dsi_dcs_write cmd d) = cmd # d"
| "payload x = []"

text \<open>
  The atm0784 sequence sends a command as one write of two bytes, a count and the command
  id, and then each parameter as a write of its own. \<open>blocks\<close> cuts a list of payloads
  into such blocks: a leading write and the single-byte writes that follow it.
  A block is well counted when its leading write is \<open>[count, command]\<close> and the count is
  one more than the number of parameter writes.
\<close>

definition is_param :: "u8 list \<Rightarrow> bool" where
  "is_param d = (length d = 1)"

function blocks :: "u8 list list \<Rightarrow> (u8 list \<times> u8 list list) list" where
  "blocks [] = []"
| "blocks (h # ds) = (h, takeWhile is_param ds) # blocks (dropWhile is_param ds)"
  by pat_completeness auto
termination
  by (relation "measure length") (auto simp: length_dropWhile_le less_Suc_eq_le)

fun block_shape :: "u8 list \<times> u8 list list \<Rightarrow> u8 list \<times> nat" where
  "block_shape (h, ps) = (h, length ps)"

fun block_ok :: "u8 list \<times> u8 list list \<Rightarrow> bool" where
  "block_ok ([cnt, cmd], ps) = (unat cnt = Suc (length ps))"
| "block_ok (h, ps) = False"

text \<open>
  The waits of a trace that lie between two bus operations: what is left of the waits
  once everything before the first and after the last bus operation is cut off.
\<close>

definition mid_script_delays :: "trace \<Rightarrow> op list" where
  "mid_script_delays tr =
     delays (rev (dropWhile (\<lambda>x. \<not> is_bus x) (rev (dropWhile (\<lambda>x. \<not> is_bus x) tr))))"

section \<open>Properties\<close>

lemmas ST7703_CMD_defs =
  ST7703_CMD_ALL_PIXEL_OFF_def ST7703_CMD_ALL_PIXEL_ON_def ST7703_CMD_SETDISP_def
  ST7703_CMD_SETRGBIF_def ST7703_CMD_SETCYC_def ST7703_CMD_SETBGP_def
  ST7703_CMD_SETVCOM_def ST7703_CMD_SETOTP_def ST7703_CMD_SETPOWER_EXT_def
  ST7703_CMD_SETEXTC_def ST7703_CMD_SETMIPI_def ST7703_CMD_SETVDC_def
  ST7703_CMD_UNKNOWN_BF_def ST7703_CMD_SETSCR_def ST7703_CMD_SETPOWER_def
  ST7703_CMD_SETPANEL_def ST7703_CMD_UNKNOWN_C6_def ST7703_CMD_SETGAMMA_def
  ST7703_CMD_SETEQ_def ST7703_CMD_SETGIP1_def ST7703_CMD_SETGIP2_def

lemmas prim_defs =
  call_def emit_def mipi_dsi_generic_write_def mipi_dsi_dcs_write_def
  mipi_dsi_dcs_exit_sleep_mode_def mipi_dsi_dcs_set_display_on_def
  mipi_dsi_dcs_set_display_off_def mipi_dsi_dcs_enter_sleep_mode_def
  regulator_enable_def regulator_disable_def gpiod_set_value_cansleep_def
  msleep_def usleep_range_def dev_info_def dev_err_def dev_dbg_def

subsection \<open>Narrowing to int\<close>

lemma to_int_eq: "to_int x = (x + 2147483648) mod 4294967296 - 2147483648"
  unfolding to_int_def by (simp add: int_word_sint)

lemma to_int_id: "- 2147483648 \<le> x \<Longrightarrow> x < 2147483648 \<Longrightarrow> to_int x = x"
  by (simp add: to_int_eq)

lemma to_int_0: "to_int 0 = 0"
  by (simp add: to_int_def)

lemma accept_all_accepted: "0 \<le> to_int (accept_all h)"
  by (simp add: accept_all_def to_int_0)

subsection \<open>Straight-line sequences\<close>

lemma run_seq_accepted:
  assumes "\<forall>h. 0 \<le> to_int (env h)"
  shows "run_seq env ss tr = (0, tr @ map stmt_op ss)"
proof (induction ss arbitrary: tr)
  case Nil
  show ?case by simp
next
  case (Cons s ss)
  have ok: "\<not> to_int (env h) < 0" for h
    using assms by (simp add: not_less)
  show ?case
    using Cons.IH ok by (cases s) (simp_all add: prim_defs Let_def)
qed

lemma run_seq_prefix:
  "\<exists>n. snd (run_seq env ss tr) = tr @ take n (map stmt_op ss)"
proof (induction ss arbitrary: tr)
  case Nil
  show ?case by simp
next
  case (Cons s ss)
  have step: "\<exists>n. snd (run_seq env ss (tr @ [stmt_op s])) = tr @ take n (stmt_op s # map stmt_op ss)"
  proof -
    from Cons.IH [of "tr @ [stmt_op s]"] obtain n
      where "snd (run_seq env ss (tr @ [stmt_op s])) = (tr @ [stmt_op s]) @ take n (map stmt_op ss)" ..
    then have "snd (run_seq env ss (tr @ [stmt_op s])) = tr @ take (Suc n) (stmt_op s # map stmt_op ss)"
      by simp
    then show ?thesis ..
  qed
  have stop: "\<exists>n. tr @ [stmt_op s] = tr @ take n (stmt_op s # map stmt_op ss)"
    by (rule exI [of _ "Suc 0"]) simp
  show ?case
    using step stop by (cases s) (simp_all add: prim_defs Let_def)
qed

lemma bus_ops_through_write:
  "k \<le> length (bus_ops xs) \<Longrightarrow> bus_ops (through_write k xs) = take k (bus_ops xs)"
  by (induction k xs rule: through_write.induct) (auto simp: bus_ops_def)

lemma run_seq_reject:
  assumes "1 \<le> k" and "k \<le> length (bus_ops (map stmt_op ss))"
    and "to_int (env (tr @ through_write k (map stmt_op ss))) = r" and "r < 0"
    and "\<forall>j. 1 \<le> j \<and> j < k \<longrightarrow> 0 \<le> to_int (env (tr @ through_write j (map stmt_op ss)))"
  shows "run_seq env ss tr = (r, tr @ through_write k (map stmt_op ss))"
  using assms
proof (induction ss arbitrary: k tr)
  case Nil
  then show ?case by (simp add: bus_ops_def)
next
  case (Cons s ss)
  from Cons.prems(1) obtain k' where k: "k = Suc k'" by (cases k) auto
  show ?case
  proof (cases "is_bus (stmt_op s)")
    case False
    have "run_seq env ss (tr @ [stmt_op s]) = (r, (tr @ [stmt_op s]) @ through_write k (map stmt_op ss))"
    proof (rule Cons.IH)
      show "1 \<le> k" by fact
      show "k \<le> length (bus_ops (map stmt_op ss))"
        using Cons.prems(2) False by (simp add: bus_ops_def)
      show "to_int (env ((tr @ [stmt_op s]) @ through_write k (map stmt_op ss))) = r"
        using Cons.prems(3) False k by simp
      show "r < 0" by fact
      show "\<forall>j. 1 \<le> j \<and> j < k \<longrightarrow> 0 \<le> to_int (env ((tr @ [stmt_op s]) @ through_write j (map stmt_op ss)))"
      proof (intro allI impI)
        fix j assume j: "1 \<le> j \<and> j < k"
        then obtain j' where "j = Suc j'" by (cases j) auto
        with Cons.prems(5) j False show "0 \<le> to_int (env ((tr @ [stmt_op s]) @ through_write j (map stmt_op ss)))"
          by fastforce
      qed
    qed
    with False k show ?thesis
      by (cases s) (simp_all add: prim_defs Let_def)
  next
    case True
    show ?thesis
    proof (cases k')
      case 0
      with True k Cons.prems(3,4) show ?thesis
        by (cases s) (simp_all add: prim_defs Let_def)
    next
      case (Suc k'')
      have first: "0 \<le> to_int (env (tr @ [stmt_op s]))"
        using Cons.prems(5) [rule_format, of 1] True k Suc by simp
      have "run_seq env ss (tr @ [stmt_op s]) = (r, (tr @ [stmt_op s]) @ through_write k' (map stmt_op ss))"
      proof (rule Cons.IH)
        show "1 \<le> k'" using Suc by simp
        show "k' \<le> length (bus_ops (map stmt_op ss))"
          using Cons.prems(2) True k by (simp add: bus_ops_def)
        show "to_int (env ((tr @ [stmt_op s]) @ through_write k' (map stmt_op ss))) = r"
          using Cons.prems(3) True k by simp
        show "r < 0" by fact
        show "\<forall>j. 1 \<le> j \<and> j < k' \<longrightarrow> 0 \<le> to_int (env ((tr @ [stmt_op s]) @ through_write j (map stmt_op ss)))"
        proof (intro allI impI)
          fix j assume j: "1 \<le> j \<and> j < k'"
          then have "1 \<le> Suc j \<and> Suc j < k" using k by simp
          with Cons.prems(5) have "0 \<le> to_int (env (tr @ through_write (Suc j) (map stmt_op (s # ss))))"
            by blast
          with True show "0 \<le> to_int (env ((tr @ [stmt_op s]) @ through_write j (map stmt_op ss)))"
            by simp
        qed
      qed
      with True k first show ?thesis
        by (cases s) (simp_all add: prim_defs Let_def)
    qed
  qed
qed

lemma bus_ops_append: "bus_ops (xs @ ys) = bus_ops xs @ bus_ops ys"
  by (simp add: bus_ops_def)

lemma script_ops_jh057n: "script_ops jh057n00900_panel_desc = map stmt_op jh057n_stmts"
  by (simp add: script_ops_def jh057n00900_panel_desc_def jh057n_init_sequence_def
      run_seq_accepted accept_all_accepted)

lemma script_ops_xbd599: "script_ops xbd599_desc = map stmt_op xbd599_stmts"
  by (simp add: script_ops_def xbd599_desc_def xbd599_init_sequence_def
      run_seq_accepted accept_all_accepted)

lemma script_ops_atm0784: "script_ops atm0784_desc = map stmt_op atm0784_stmts"
  by (simp add: script_ops_def atm0784_desc_def atm0784_init_sequence_def
      run_seq_accepted accept_all_accepted)

lemma jh057n_full_run:
  "\<forall>h. 0 \<le> to_int (env h) \<Longrightarrow>
   jh057n_init_sequence env tr = (0, tr @ script_ops jh057n00900_panel_desc)"
  by (simp add: jh057n_init_sequence_def script_ops_jh057n run_seq_accepted)

lemma xbd599_full_run:
  "\<forall>h. 0 \<le> to_int (env h) \<Longrightarrow>
   xbd599_init_sequence env tr = (0, tr @ script_ops xbd599_desc)"
  by (simp add: xbd599_init_sequence_def script_ops_xbd599 run_seq_accepted)

lemma atm0784_full_run:
  "\<forall>h. 0 \<le> to_int (env h) \<Longrightarrow>
   atm0784_init_sequence env tr = (0, tr @ script_ops atm0784_desc)"
  by (simp add: atm0784_init_sequence_def script_ops_atm0784 run_seq_accepted)

lemma bus_ops_jh057n:
  "bus_ops (script_ops jh057n00900_panel_desc) =
     map Mipi_dsi_generic_write
       [[0xB9, 0xF1, 0x12, 0x83],
        [0xB3, 0x10, 0x10, 0x05, 0x05, 0x03, 0xFF, 0x00, 0x00, 0x00, 0x00],
        [0xC0, 0x73, 0x73, 0x50, 0x50, 0x00, 0x00, 0x08, 0x70, 0x00],
        [0xBC, 0x4E],
        [0xCC, 0x0B],
        [0xB4, 0x80],
        [0xB2, 0xF0, 0x12, 0x30],
        [0xE3, 0x07, 0x07, 0x0B, 0x0B, 0x03, 0x0B, 0x00, 0x00, 0x00, 0x00, 0xFF, 0x00,
         0xC0, 0x10],
        [0xB5, 0x08, 0x08],
        [0xB6, 0x3F, 0x3F],
        [0xBF, 0x02, 0x11, 0x00],
        [0xE9, 0x82, 0x10, 0x06, 0x05, 0x9E, 0x0A, 0xA5, 0x12, 0x31, 0x23, 0x37, 0x83,
         0x04, 0xBC, 0x27, 0x38, 0x0C, 0x00, 0x03, 0x00, 0x00, 0x00, 0x0C, 0x00, 0x03,
         0x00, 0x00, 0x00, 0x75, 0x75, 0x31, 0x88, 0x88, 0x88, 0x88, 0x88, 0x88, 0x13,
         0x88, 0x64, 0x64, 0x20, 0x88, 0x88, 0x88, 0x88, 0x88, 0x88, 0x02, 0x88, 0x00,
         0x00, 0x00, 0x00, 0x00, 0x00, 0x00, 0x00, 0x00, 0x00, 0x00, 0x00, 0x00],
        [0xEA, 0x02, 0x21, 0x00, 0x00, 0x00, 0x00, 0x00, 0x00, 0x00, 0x00, 0x00, 0x00,
         0x02, 0x46, 0x02, 0x88, 0x88, 0x88, 0x88, 0x88, 0x88, 0x64, 0x88, 0x13, 0x57,
         0x13, 0x88, 0x88, 0x88, 0x88, 0x88, 0x88, 0x75, 0x88, 0x23, 0x14, 0x00, 0x00,
         0x02, 0x00, 0x00, 0x00, 0x00, 0x00, 0x00, 0x00, 0x00, 0x00, 0x00, 0x00, 0x00,
         0x00, 0x00, 0x00, 0x30, 0x0A, 0xA5, 0x00, 0x00, 0x00, 0x00],
        [0xE0, 0x00, 0x09, 0x0E, 0x29, 0x2D, 0x3C, 0x41, 0x37, 0x07, 0x0B, 0x0D, 0x10,
         0x11, 0x0F, 0x10, 0x11, 0x18, 0x00, 0x09, 0x0E, 0x29, 0x2D, 0x3C, 0x41, 0x37,
         0x07, 0x0B, 0x0D, 0x10, 0x11, 0x0F, 0x10, 0x11, 0x18]]"
  by (simp add: script_ops_jh057n bus_ops_def jh057n_stmts_def ST7703_CMD_defs)

lemma bus_ops_xbd599:
  "bus_ops (script_ops xbd599_desc) =
     map (case_prod Mipi_dsi_dcs_write)
       [(0xB9, [0xF1, 0x12, 0x83]),
        (0xBA, [0x33, 0x81, 0x05, 0xF9, 0x0E, 0x0E, 0x20, 0x00, 0x00, 0x00, 0x00, 0x00,
         0x00, 0x00, 0x44, 0x25, 0x00, 0x91, 0x0A, 0x00, 0x00, 0x02, 0x4F, 0x11, 0x00,
         0x00, 0x37]),
        (0xB8, [0x25, 0x22, 0x20, 0x03]),
        (0xB3, [0x10, 0x10, 0x05, 0x05, 0x03, 0xFF, 0x00, 0x00, 0x00, 0x00]),
        (0xC0, [0x73, 0x73, 0x50, 0x50, 0x00, 0xC0, 0x08, 0x70, 0x00]),
        (0xBC, [0x4E]),
        (0xCC, [0x0B]),
        (0xB4, [0x80]),
        (0xB2, [0xF0, 0x12, 0xF0]),
        (0xE3, [0x00, 0x00, 0x0B, 0x0B, 0x10, 0x10, 0x00, 0x00, 0x00, 0x00, 0xFF, 0x00,
         0xC0, 0x10]),
        (0xC6, [0x01, 0x00, 0xFF, 0xFF, 0x00]),
        (0xC1, [0x74, 0x00, 0x32, 0x32, 0x77, 0xF1, 0xFF, 0xFF, 0xCC, 0xCC, 0x77,
         0x77]),
        (0xB5, [0x07, 0x07]),
        (0xB6, [0x2C, 0x2C]),
        (0xBF, [0x02, 0x11, 0x00]),
        (0xE9, [0x82, 0x10, 0x06, 0x05, 0xA2, 0x0A, 0xA5, 0x12, 0x31, 0x23, 0x37, 0x83,
         0x04, 0xBC, 0x27, 0x38, 0x0C, 0x00, 0x03, 0x00, 0x00, 0x00, 0x0C, 0x00, 0x03,
         0x00, 0x00, 0x00, 0x75, 0x75, 0x31, 0x88, 0x88, 0x88, 0x88, 0x88, 0x88, 0x13,
         0x88, 0x64, 0x64, 0x20, 0x88, 0x88, 0x88, 0x88, 0x88, 0x88, 0x02, 0x88, 0x00,
         0x00, 0x00, 0x00, 0x00, 0x00, 0x00, 0x00, 0x00, 0x00, 0x00, 0x00, 0x00]),
        (0xEA, [0x02, 0x21, 0x00, 0x00, 0x00, 0x00, 0x00, 0x00, 0x00, 0x00, 0x00, 0x00,
         0x02, 0x46, 0x02, 0x88, 0x88, 0x88, 0x88, 0x88, 0x88, 0x64, 0x88, 0x13, 0x57,
         0x13, 0x88, 0x88, 0x88, 0x88, 0x88, 0x88, 0x75, 0x88, 0x23, 0x14, 0x00, 0x00,
         0x02, 0x00, 0x00, 0x00, 0x00, 0x00, 0x00, 0x00, 0x00, 0x00, 0x00, 0x00, 0x00,
         0x00, 0x00, 0x00, 0x03, 0x0A, 0xA5, 0x00, 0x00, 0x00, 0x00]),
        (0xE0, [0x00, 0x09, 0x0D, 0x23, 0x27, 0x3C, 0x41, 0x35, 0x07, 0x0D, 0x0E, 0x12,
         0x13, 0x10, 0x12, 0x12, 0x18, 0x00, 0x09, 0x0D, 0x23, 0x27, 0x3C, 0x41, 0x35,
         0x07, 0x0D, 0x0E, 0x12, 0x13, 0x10, 0x12, 0x12, 0x18])]"
  by (simp add: script_ops_xbd599 bus_ops_def xbd599_stmts_def ST7703_CMD_defs)

lemma bus_ops_atm0784:
  "bus_ops (script_ops atm0784_desc) =
     map Mipi_dsi_generic_write
       [[0x04, 0xB9], [0xF1], [0x12], [0x83],
        [0x04, 0xB2], [0xC8], [0x25], [0xF0],
        [0x0B, 0xB3], [0x10], [0x10], [0x28], [0x28], [0x03], [0xFF], [0x00], [0x00],
        [0x00], [0x00],
        [0x02, 0xB4], [0x80],
        [0x03, 0xB5], [0x0B], [0x0B],
        [0x03, 0xB6], [0x50], [0x50],
        [0x02, 0xB8], [0x26],
        [0x1C, 0xBA], [0x81], [0x05], [0xF9], [0x0E], [0x0E], [0x20], [0x00], [0x00],
        [0x00], [0x00], [0x00], [0x00], [0x00], [0x44], [0x25], [0x00], [0x90], [0x0A],
        [0x00], [0x00], [0x01], [0x4F], [0x01], [0x00], [0x00], [0x37],
        [0x02, 0xBC], [0x46],
        [0x04, 0xBF], [0x02], [0x11], [0x00],
        [0x0A, 0xC0], [0x73], [0x73], [0x50], [0x50], [0x00], [0x00], [0x08], [0x70],
        [0x00],
        [0x0D, 0xC1], [0x25], [0x00], [0x32], [0x32], [0x99], [0xE4], [0xFF], [0xFF],
        [0xEE], [0xEE], [0x77], [0x77],
        [0x02, 0xCC], [0x0B],
        [0x23, 0xE0], [0x00], [0x0D], [0x14], [0x2C], [0x32], [0x3F], [0x47], [0x3C],
        [0x07], [0x0E], [0x10], [0x13], [0x15], [0x13], [0x14], [0x0F], [0x17], [0x00],
        [0x0D], [0x14], [0x2C], [0x32], [0x3F], [0x47], [0x3C], [0x07], [0x0E], [0x10],
        [0x13], [0x15], [0x13], [0x14], [0x0F], [0x17],
        [0x0F, 0xE3], [0x07], [0x07], [0x0B], [0x0B], [0x03], [0x03], [0x00], [0x00],
        [0x00], [0x00], [0xFF], [0x80], [0xC0], [0x10],
        [0x40, 0xE9], [0xC8], [0x10], [0x0A], [0x10], [0x0E], [0x80], [0x81], [0x12],
        [0x31], [0x23], [0x4F], [0x86], [0x80], [0x38], [0x47], [0x08], [0x00], [0x0E],
        [0x0C], [0x00], [0x02], [0x00], [0x00], [0x0E], [0x0C], [0x00], [0x02], [0x00],
        [0x8F], [0x94], [0x46], [0x02], [0x8A], [0x02], [0x88], [0x88], [0x88], [0x88],
        [0x88], [0x8F], [0x94], [0x57], [0x13], [0x8A], [0x13], [0x88], [0x88], [0x88],
        [0x88], [0x88], [0x00], [0x00], [0x00], [0x01], [0x00], [0x80], [0x38], [0x00],
        [0x00], [0x00], [0x00], [0x00], [0x00],
        [0x3E, 0xEA], [0x00], [0x1A], [0x00], [0x00], [0x00], [0x00], [0x01], [0x0C],
        [0x41], [0x01], [0x02], [0x00], [0xF8], [0x94], [0x31], [0x75], [0x8A], [0x31],
        [0x88], [0x88], [0x88], [0x88], [0x88], [0xF8], [0x94], [0x20], [0x64], [0x8A],
        [0x20], [0x88], [0x88], [0x88], [0x88], [0x88], [0x23], [0x00], [0x00], [0x01],
        [0x28], [0x00], [0x00], [0x00], [0x00], [0x00], [0x00], [0x00], [0x00], [0x00],
        [0x00], [0x00], [0x05], [0x0B], [0x00], [0x00], [0x40], [0x80], [0x81], [0x40],
        [0x80], [0x81], [0x00]]"
  by (simp add: script_ops_atm0784 bus_ops_def atm0784_stmts_def)

lemma write_counts:
  "length (bus_ops (script_ops jh057n00900_panel_desc)) = 14"
  "length (bus_ops (script_ops xbd599_desc)) = 18"
  "length (bus_ops (script_ops atm0784_desc)) = 263"
  by (simp_all add: bus_ops_jh057n bus_ops_xbd599 bus_ops_atm0784)

subsection \<open>The init sequences on a transport that accepts every write\<close>

text \<open>
  Claim C2. On a transport that accepts every write, that is, whose every reply is
  non-negative once stored in the macro's \<open>int ret\<close>, each of the three init sequences
  returns 0 and puts on the bus exactly the writes of its source text, in order, byte for
  byte: \<open>jh057n_init_sequence\<close> and \<open>atm0784_init_sequence\<close> as generic writes only,
  \<open>xbd599_init_sequence\<close> as DCS writes only (instruction byte, then arguments).
\<close>

theorem init_sequences_byte_exact:
  assumes "\<forall>h. 0 \<le> to_int (env h)"
  shows
  "fst (jh057n_init_sequence env tr) = 0
   \<and> bus_ops (snd (jh057n_init_sequence env tr)) = bus_ops tr @
       map Mipi_dsi_generic_write
       [[0xB9, 0xF1, 0x12, 0x83],
        [0xB3, 0x10, 0x10, 0x05, 0x05, 0x03, 0xFF, 0x00, 0x00, 0x00, 0x00],
        [0xC0, 0x73, 0x73, 0x50, 0x50, 0x00, 0x00, 0x08, 0x70, 0x00],
        [0xBC, 0x4E],
        [0xCC, 0x0B],
        [0xB4, 0x80],
        [0xB2, 0xF0, 0x12, 0x30],
        [0xE3, 0x07, 0x07, 0x0B, 0x0B, 0x03, 0x0B, 0x00, 0x00, 0x00, 0x00, 0xFF, 0x00,
         0xC0, 0x10],
        [0xB5, 0x08, 0x08],
        [0xB6, 0x3F, 0x3F],
        [0xBF, 0x02, 0x11, 0x00],
        [0xE9, 0x82, 0x10, 0x06, 0x05, 0x9E, 0x0A, 0xA5, 0x12, 0x31, 0x23, 0x37, 0x83,
         0x04, 0xBC, 0x27, 0x38, 0x0C, 0x00, 0x03, 0x00, 0x00, 0x00, 0x0C, 0x00, 0x03,
         0x00, 0x00, 0x00, 0x75, 0x75, 0x31, 0x88, 0x88, 0x88, 0x88, 0x88, 0x88, 0x13,
         0x88, 0x64, 0x64, 0x20, 0x88, 0x88, 0x88, 0x88, 0x88, 0x88, 0x02, 0x88, 0x00,
         0x00, 0x00, 0x00, 0x00, 0x00, 0x00, 0x00, 0x00, 0x00, 0x00, 0x00, 0x00],
        [0xEA, 0x02, 0x21, 0x00, 0x00, 0x00, 0x00, 0x00, 0x00, 0x00, 0x00, 0x00, 0x00,
         0x02, 0x46, 0x02, 0x88, 0x88, 0x88, 0x88, 0x88, 0x88, 0x64, 0x88, 0x13, 0x57,
         0x13, 0x88, 0x88, 0x88, 0x88, 0x88, 0x88, 0x75, 0x88, 0x23, 0x14, 0x00, 0x00,
         0x02, 0x00, 0x00, 0x00, 0x00, 0x00, 0x00, 0x00, 0x00, 0x00, 0x00, 0x00, 0x00,
         0x00, 0x00, 0x00, 0x30, 0x0A, 0xA5, 0x00, 0x00, 0x00, 0x00],
        [0xE0, 0x00, 0x09, 0x0E, 0x29, 0x2D, 0x3C, 0x41, 0x37, 0x07, 0x0B, 0x0D, 0x10,
         0x11, 0x0F, 0x10, 0x11, 0x18, 0x00, 0x09, 0x0E, 0x29, 0x2D, 0x3C, 0x41, 0x37,
         0x07, 0x0B, 0x0D, 0x10, 0x11, 0x0F, 0x10, 0x11, 0x18]]
   \<and> fst (xbd599_init_sequence env tr) = 0
   \<and> bus_ops (snd (xbd599_init_sequence env tr)) = bus_ops tr @
       map (case_prod Mipi_dsi_dcs_write)
       [(0xB9, [0xF1, 0x12, 0x83]),
        (0xBA, [0x33, 0x81, 0x05, 0xF9, 0x0E, 0x0E, 0x20, 0x00, 0x00, 0x00, 0x00, 0x00,
         0x00, 0x00, 0x44, 0x25, 0x00, 0x91, 0x0A, 0x00, 0x00, 0x02, 0x4F, 0x11, 0x00,
         0x00, 0x37]),
        (0xB8, [0x25, 0x22, 0x20, 0x03]),
        (0xB3, [0x10, 0x10, 0x05, 0x05, 0x03, 0xFF, 0x00, 0x00, 0x00, 0x00]),
        (0xC0, [0x73, 0x73, 0x50, 0x50, 0x00, 0xC0, 0x08, 0x70, 0x00]),
        (0xBC, [0x4E]),
        (0xCC, [0x0B]),
        (0xB4, [0x80]),
        (0xB2, [0xF0, 0x12, 0xF0]),
        (0xE3, [0x00, 0x00, 0x0B, 0x0B, 0x10, 0x10, 0x00, 0x00, 0x00, 0x00, 0xFF, 0x00,
         0xC0, 0x10]),
        (0xC6, [0x01, 0x00, 0xFF, 0xFF, 0x00]),
        (0xC1, [0x74, 0x00, 0x32, 0x32, 0x77, 0xF1, 0xFF, 0xFF, 0xCC, 0xCC, 0x77,
         0x77]),
        (0xB5, [0x07, 0x07]),
        (0xB6, [0x2C, 0x2C]),
        (0xBF, [0x02, 0x11, 0x00]),
        (0xE9, [0x82, 0x10, 0x06, 0x05, 0xA2, 0x0A, 0xA5, 0x12, 0x31, 0x23, 0x37, 0x83,
         0x04, 0xBC, 0x27, 0x38, 0x0C, 0x00, 0x03, 0x00, 0x00, 0x00, 0x0C, 0x00, 0x03,
         0x00, 0x00, 0x00, 0x75, 0x75, 0x31, 0x88, 0x88, 0x88, 0x88, 0x88, 0x88, 0x13,
         0x88, 0x64, 0x64, 0x20, 0x88, 0x88, 0x88, 0x88, 0x88, 0x88, 0x02, 0x88, 0x00,
         0x00, 0x00, 0x00, 0x00, 0x00, 0x00, 0x00, 0x00, 0x00, 0x00, 0x00, 0x00]),
        (0xEA, [0x02, 0x21, 0x00, 0x00, 0x00, 0x00, 0x00, 0x00, 0x00, 0x00, 0x00, 0x00,
         0x02, 0x46, 0x02, 0x88, 0x88, 0x88, 0x88, 0x88, 0x88, 0x64, 0x88, 0x13, 0x57,
         0x13, 0x88, 0x88, 0x88, 0x88, 0x88, 0x88, 0x75, 0x88, 0x23, 0x14, 0x00, 0x00,
         0x02, 0x00, 0x00, 0x00, 0x00, 0x00, 0x00, 0x00, 0x00, 0x00, 0x00, 0x00, 0x00,
         0x00, 0x00, 0x00, 0x03, 0x0A, 0xA5, 0x00, 0x00, 0x00, 0x00]),
        (0xE0, [0x00, 0x09, 0x0D, 0x23, 0x27, 0x3C, 0x41, 0x35, 0x07, 0x0D, 0x0E, 0x12,
         0x13, 0x10, 0x12, 0x12, 0x18, 0x00, 0x09, 0x0D, 0x23, 0x27, 0x3C, 0x41, 0x35,
         0x07, 0x0D, 0x0E, 0x12, 0x13, 0x10, 0x12, 0x12, 0x18])]
   \<and> fst (atm0784_init_sequence env tr) = 0
   \<and> bus_ops (snd (atm0784_init_sequence env tr)) = bus_ops tr @
       map Mipi_dsi_generic_write
       [[0x04, 0xB9], [0xF1], [0x12], [0x83],
        [0x04, 0xB2], [0xC8], [0x25], [0xF0],
        [0x0B, 0xB3], [0x10], [0x10], [0x28], [0x28], [0x03], [0xFF], [0x00], [0x00],
        [0x00], [0x00],
        [0x02, 0xB4], [0x80],
        [0x03, 0xB5], [0x0B], [0x0B],
        [0x03, 0xB6], [0x50], [0x50],
        [0x02, 0xB8], [0x26],
        [0x1C, 0xBA], [0x81], [0x05], [0xF9], [0x0E], [0x0E], [0x20], [0x00], [0x00],
        [0x00], [0x00], [0x00], [0x00], [0x00], [0x44], [0x25], [0x00], [0x90], [0x0A],
        [0x00], [0x00], [0x01], [0x4F], [0x01], [0x00], [0x00], [0x37],
        [0x02, 0xBC], [0x46],
        [0x04, 0xBF], [0x02], [0x11], [0x00],
        [0x0A, 0xC0], [0x73], [0x73], [0x50], [0x50], [0x00], [0x00], [0x08], [0x70],
        [0x00],
        [0x0D, 0xC1], [0x25], [0x00], [0x32], [0x32], [0x99], [0xE4], [0xFF], [0xFF],
        [0xEE], [0xEE], [0x77], [0x77],
        [0x02, 0xCC], [0x0B],
        [0x23, 0xE0], [0x00], [0x0D], [0x14], [0x2C], [0x32], [0x3F], [0x47], [0x3C],
        [0x07], [0x0E], [0x10], [0x13], [0x15], [0x13], [0x14], [0x0F], [0x17], [0x00],
        [0x0D], [0x14], [0x2C], [0x32], [0x3F], [0x47], [0x3C], [0x07], [0x0E], [0x10],
        [0x13], [0x15], [0x13], [0x14], [0x0F], [0x17],
        [0x0F, 0xE3], [0x07], [0x07], [0x0B], [0x0B], [0x03], [0x03], [0x00], [0x00],
        [0x00], [0x00], [0xFF], [0x80], [0xC0], [0x10],
        [0x40, 0xE9], [0xC8], [0x10], [0x0A], [0x10], [0x0E], [0x80], [0x81], [0x12],
        [0x31], [0x23], [0x4F], [0x86], [0x80], [0x38], [0x47], [0x08], [0x00], [0x0E],
        [0x0C], [0x00], [0x02], [0x00], [0x00], [0x0E], [0x0C], [0x00], [0x02], [0x00],
        [0x8F], [0x94], [0x46], [0x02], [0x8A], [0x02], [0x88], [0x88], [0x88], [0x88],
        [0x88], [0x8F], [0x94], [0x57], [0x13], [0x8A], [0x13], [0x88], [0x88], [0x88],
        [0x88], [0x88], [0x00], [0x00], [0x00], [0x01], [0x00], [0x80], [0x38], [0x00],
        [0x00], [0x00], [0x00], [0x00], [0x00],
        [0x3E, 0xEA], [0x00], [0x1A], [0x00], [0x00], [0x00], [0x00], [0x01], [0x0C],
        [0x41], [0x01], [0x02], [0x00], [0xF8], [0x94], [0x31], [0x75], [0x8A], [0x31],
        [0x88], [0x88], [0x88], [0x88], [0x88], [0xF8], [0x94], [0x20], [0x64], [0x8A],
        [0x20], [0x88], [0x88], [0x88], [0x88], [0x88], [0x23], [0x00], [0x00], [0x01],
        [0x28], [0x00], [0x00], [0x00], [0x00], [0x00], [0x00], [0x00], [0x00], [0x00],
        [0x00], [0x00], [0x05], [0x0B], [0x00], [0x00], [0x40], [0x80], [0x81], [0x40],
        [0x80], [0x81], [0x00]]"
  apply (intro conjI)
  subgoal using assms by (simp add: jh057n_full_run)
  subgoal using assms by (simp add: jh057n_full_run bus_ops_append bus_ops_jh057n)
  subgoal using assms by (simp add: xbd599_full_run)
  subgoal using assms by (simp add: xbd599_full_run bus_ops_append bus_ops_xbd599)
  subgoal using assms by (simp add: atm0784_full_run)
  subgoal using assms by (simp add: atm0784_full_run bus_ops_append bus_ops_atm0784)
  done

text \<open>
  The transport that answers 0 to every write: the three sequences run to their end,
  14, 18 and 263 writes, and the first and the last write of each are those of the
  source.
\<close>

theorem init_sequences_byte_exact_witness:
  "(\<forall>h. 0 \<le> to_int (accept_all h))
   \<and> fst (jh057n_init_sequence accept_all []) = 0
   \<and> length (bus_ops (snd (jh057n_init_sequence accept_all []))) = 14
   \<and> hd (bus_ops (snd (jh057n_init_sequence accept_all [])))
       = Mipi_dsi_generic_write [0xB9, 0xF1, 0x12, 0x83]
   \<and> fst (xbd599_init_sequence accept_all []) = 0
   \<and> length (bus_ops (snd (xbd599_init_sequence accept_all []))) = 18
   \<and> hd (bus_ops (snd (xbd599_init_sequence accept_all [])))
       = Mipi_dsi_dcs_write 0xB9 [0xF1, 0x12, 0x83]
   \<and> fst (atm0784_init_sequence accept_all []) = 0
   \<and> length (bus_ops (snd (atm0784_init_sequence accept_all []))) = 263
   \<and> hd (bus_ops (snd (atm0784_init_sequence accept_all [])))
       = Mipi_dsi_generic_write [0x04, 0xB9]
   \<and> last (bus_ops (snd (atm0784_init_sequence accept_all [])))
       = Mipi_dsi_generic_write [0x00]"
proof -
  have acc: "\<forall>h. 0 \<le> to_int (accept_all h)"
    by (simp add: accept_all_accepted)
  show ?thesis
    using acc init_sequences_byte_exact [OF acc, of "[]"]
    by (simp add: bus_ops_def)
qed

subsection \<open>disable\<close>

text \<open>
  Claim C10. \<open>st7703_disable\<close> returns 0 whatever the two bus writes return, also when
  both fail; it leaves the device instance as it was, and neither its result nor the
  operations it performs depend on the \<open>prepared\<close> flag.
\<close>

theorem st7703_disable_always_zero:
  "fst (st7703_disable env ctx tr) = 0
   \<and> fst (snd (st7703_disable env ctx tr)) = ctx
   \<and> st7703_disable env (ctx\<lparr>prepared := b\<rparr>) tr
       = (0, ctx\<lparr>prepared := b\<rparr>, snd (snd (st7703_disable env ctx tr)))"
  by (simp add: st7703_disable_def prim_defs Let_def)

text \<open>Both writes fail with -5 (EIO): the errors are logged and 0 is returned.\<close>

theorem st7703_disable_always_zero_witness:
  "fst (st7703_disable (fails_from 0 (- 5)) \<lparr>prepared = True, desc = xbd599_desc\<rparr> []) = 0
   \<and> fst (snd (st7703_disable (fails_from 0 (- 5)) \<lparr>prepared = True, desc = xbd599_desc\<rparr> []))
       = \<lparr>prepared = True, desc = xbd599_desc\<rparr>
   \<and> snd (snd (st7703_disable (fails_from 0 (- 5)) \<lparr>prepared = False, desc = xbd599_desc\<rparr> []))
       = [Mipi_dsi_dcs_set_display_off, Dev_err ''Failed to turn off the display: %d'' (- 5),
          Mipi_dsi_dcs_enter_sleep_mode, Dev_err ''Failed to enter sleep mode: %d'' (- 5)]"
  using st7703_disable_always_zero
    [of "fails_from 0 (- 5)" "\<lparr>prepared = True, desc = xbd599_desc\<rparr>" "[]" False]
  by (simp add: st7703_disable_def prim_defs Let_def fails_from_def)

text \<open>
  Claim C6. \<open>st7703_disable\<close> always puts both teardown commands on the bus, display-off
  and then enter-sleep-mode, and nothing else. When the display-off write fails, the error
  is logged and the enter-sleep-mode write follows.
\<close>

theorem st7703_disable_attempts_both:
  "bus_ops (snd (snd (st7703_disable env ctx tr)))
     = bus_ops tr @ [Mipi_dsi_dcs_set_display_off, Mipi_dsi_dcs_enter_sleep_mode]
   \<and> (env (tr @ [Mipi_dsi_dcs_set_display_off]) < 0 \<longrightarrow>
        take 3 (drop (length tr) (snd (snd (st7703_disable env ctx tr))))
          = [Mipi_dsi_dcs_set_display_off,
             Dev_err ''Failed to turn off the display: %d''
               (env (tr @ [Mipi_dsi_dcs_set_display_off])),
             Mipi_dsi_dcs_enter_sleep_mode])"
  by (simp add: st7703_disable_def prim_defs Let_def bus_ops_def)

theorem st7703_disable_attempts_both_witness:
  "fails_at 1 (- 5) ([] @ [Mipi_dsi_dcs_set_display_off]) < 0
   \<and> snd (snd (st7703_disable (fails_at 1 (- 5)) \<lparr>prepared = True, desc = xbd599_desc\<rparr> []))
      = [Mipi_dsi_dcs_set_display_off, Dev_err ''Failed to turn off the display: %d'' (- 5),
         Mipi_dsi_dcs_enter_sleep_mode]"
  using st7703_disable_attempts_both
    [of "fails_at 1 (- 5)" "\<lparr>prepared = True, desc = xbd599_desc\<rparr>" "[]"]
  by (simp add: st7703_disable_def prim_defs Let_def fails_at_def)

subsection \<open>prepare and unprepare\<close>

text \<open>
  Claim C4. In \<open>st7703_prepare\<close> on an unprepared instance, when enabling vcc succeeds
  and enabling iovcc fails with \<open>r\<close>, vcc is disabled again, \<open>r\<close> is returned, the reset
  line is not touched and the instance stays unprepared.
\<close>

theorem st7703_prepare_iovcc_failure:
  assumes "\<not> prepared ctx"
    and "0 \<le> env (tr @ [Dev_info ''Resetting the panel'', Regulator_enable Vcc])"
    and "env (tr @ [Dev_info ''Resetting the panel'', Regulator_enable Vcc,
                    Regulator_enable Iovcc]) = r"
    and "r < 0"
  shows "st7703_prepare env ctx tr =
           (r, ctx,
            tr @ [Dev_info ''Resetting the panel'', Regulator_enable Vcc,
                  Regulator_enable Iovcc,
                  Dev_err ''Failed to enable iovcc supply: %d'' r,
                  Regulator_disable Vcc])
         \<and> reset_ops (snd (snd (st7703_prepare env ctx tr))) = reset_ops tr
         \<and> \<not> prepared (fst (snd (st7703_prepare env ctx tr)))"
  using assms by (simp add: st7703_prepare_def prim_defs Let_def reset_ops_def)

theorem st7703_prepare_iovcc_failure_witness:
  "st7703_prepare (fails_at 3 (- 22)) \<lparr>prepared = False, desc = atm0784_desc\<rparr> [] =
     (- 22, \<lparr>prepared = False, desc = atm0784_desc\<rparr>,
      [Dev_info ''Resetting the panel'', Regulator_enable Vcc, Regulator_enable Iovcc,
       Dev_err ''Failed to enable iovcc supply: %d'' (- 22), Regulator_disable Vcc])"
  using st7703_prepare_iovcc_failure
    [of "\<lparr>prepared = False, desc = atm0784_desc\<rparr>" "fails_at 3 (- 22)" "[]" "- 22"]
  by (simp add: fails_at_def)

text \<open>
  Claim C8. When both regulators come up, \<open>st7703_prepare\<close> on an unprepared instance
  enables vcc and then iovcc, and the \<open>st7703_unprepare\<close> that follows disables iovcc and
  then vcc, the reverse order. A second \<open>st7703_prepare\<close> on the prepared instance, any
  \<open>st7703_prepare\<close> on a prepared instance and any \<open>st7703_unprepare\<close> on an unprepared
  one return 0 and perform no operation at all.
\<close>

theorem prepare_unprepare_order:
  "(\<not> prepared ctx
     \<and> 0 \<le> env (tr @ [Dev_info ''Resetting the panel'', Regulator_enable Vcc])
     \<and> 0 \<le> env (tr @ [Dev_info ''Resetting the panel'', Regulator_enable Vcc,
                         Regulator_enable Iovcc])
    \<longrightarrow>
     (case st7703_prepare env ctx tr of (r1, ctx1, tr1) \<Rightarrow>
      case st7703_unprepare env ctx1 tr1 of (r2, ctx2, tr2) \<Rightarrow>
        r1 = 0 \<and> prepared ctx1 \<and> r2 = 0 \<and> \<not> prepared ctx2
        \<and> regulator_ops (drop (length tr) tr1)
            = [Regulator_enable Vcc, Regulator_enable Iovcc]
        \<and> regulator_ops (drop (length tr1) tr2)
            = [Regulator_disable Iovcc, Regulator_disable Vcc]
        \<and> tr1 = tr @ [Dev_info ''Resetting the panel'', Regulator_enable Vcc,
                       Regulator_enable Iovcc, Gpiod_set_value_cansleep 1,
                       Usleep_range 20 40, Gpiod_set_value_cansleep 0, Msleep 20]
        \<and> tr2 = tr1 @ [Gpiod_set_value_cansleep 1, Regulator_disable Iovcc,
                        Regulator_disable Vcc]
        \<and> st7703_prepare env ctx1 tr1 = (0, ctx1, tr1)))
   \<and> (prepared ctx \<longrightarrow> st7703_prepare env ctx tr = (0, ctx, tr))
   \<and> (\<not> prepared ctx \<longrightarrow> st7703_unprepare env ctx tr = (0, ctx, tr))"
  by (simp add: st7703_prepare_def st7703_unprepare_def prim_defs Let_def regulator_ops_def)

theorem prepare_unprepare_order_witness:
  "st7703_prepare accept_all \<lparr>prepared = False, desc = jh057n00900_panel_desc\<rparr> []
     = (0, \<lparr>prepared = True, desc = jh057n00900_panel_desc\<rparr>,
        [Dev_info ''Resetting the panel'', Regulator_enable Vcc, Regulator_enable Iovcc,
         Gpiod_set_value_cansleep 1, Usleep_range 20 40, Gpiod_set_value_cansleep 0,
         Msleep 20])
   \<and> regulator_ops (snd (snd (st7703_unprepare accept_all
        \<lparr>prepared = True, desc = jh057n00900_panel_desc\<rparr>
        [Dev_info ''Resetting the panel'', Regulator_enable Vcc, Regulator_enable Iovcc,
         Gpiod_set_value_cansleep 1, Usleep_range 20 40, Gpiod_set_value_cansleep 0,
         Msleep 20])))
     = [Regulator_enable Vcc, Regulator_enable Iovcc,
        Regulator_disable Iovcc, Regulator_disable Vcc]
   \<and> st7703_prepare accept_all \<lparr>prepared = True, desc = jh057n00900_panel_desc\<rparr> []
     = (0, \<lparr>prepared = True, desc = jh057n00900_panel_desc\<rparr>, [])
   \<and> st7703_unprepare accept_all \<lparr>prepared = False, desc = jh057n00900_panel_desc\<rparr> []
     = (0, \<lparr>prepared = False, desc = jh057n00900_panel_desc\<rparr>, [])"
  using prepare_unprepare_order
      [of "\<lparr>prepared = False, desc = jh057n00900_panel_desc\<rparr>" accept_all "[]"]
    prepare_unprepare_order
      [of "\<lparr>prepared = True, desc = jh057n00900_panel_desc\<rparr>" accept_all "[]"]
  by (simp add: accept_all_def st7703_prepare_def st7703_unprepare_def prim_defs Let_def
      regulator_ops_def)

subsection \<open>enable\<close>

lemma stmt_op_not_builtin:
  "stmt_op s \<noteq> Mipi_dsi_dcs_exit_sleep_mode" "stmt_op s \<noteq> Mipi_dsi_dcs_set_display_on"
  by (cases s; simp)+

lemma set_through_write: "set (through_write k xs) \<subseteq> set xs"
  by (induction k xs rule: through_write.induct) auto

lemma through_write_no_builtin:
  "Mipi_dsi_dcs_exit_sleep_mode \<notin> set (through_write k (map stmt_op ss))"
  "Mipi_dsi_dcs_set_display_on \<notin> set (through_write k (map stmt_op ss))"
proof -
  have "x \<noteq> Mipi_dsi_dcs_exit_sleep_mode \<and> x \<noteq> Mipi_dsi_dcs_set_display_on"
    if "x \<in> set (through_write k (map stmt_op ss))" for x
  proof -
    from that set_through_write have "x \<in> set (map stmt_op ss)" by blast
    then obtain s where "x = stmt_op s" by auto
    then show ?thesis using stmt_op_not_builtin by simp
  qed
  then show "Mipi_dsi_dcs_exit_sleep_mode \<notin> set (through_write k (map stmt_op ss))"
    and "Mipi_dsi_dcs_set_display_on \<notin> set (through_write k (map stmt_op ss))"
    by blast+
qed

lemma supported_cases:
  assumes "d \<in> set supported"
  obtains ss where "init_sequence d = (\<lambda>env. run_seq env ss)" and "script_ops d = map stmt_op ss"
proof -
  from assms consider "d = jh057n00900_panel_desc" | "d = xbd599_desc" | "d = atm0784_desc"
    by (auto simp: supported_def)
  then show thesis
  proof cases
    case 1
    have "init_sequence d = (\<lambda>env. run_seq env jh057n_stmts)"
      by (rule ext, rule ext) (simp add: 1 jh057n00900_panel_desc_def jh057n_init_sequence_def)
    then show thesis using that 1 script_ops_jh057n by blast
  next
    case 2
    have "init_sequence d = (\<lambda>env. run_seq env xbd599_stmts)"
      by (rule ext, rule ext) (simp add: 2 xbd599_desc_def xbd599_init_sequence_def)
    then show thesis using that 2 script_ops_xbd599 by blast
  next
    case 3
    have "init_sequence d = (\<lambda>env. run_seq env atm0784_stmts)"
      by (rule ext, rule ext) (simp add: 3 atm0784_desc_def atm0784_init_sequence_def)
    then show thesis using that 3 script_ops_atm0784 by blast
  qed
qed

text \<open>
  Claim C3. Let the instance be bound to one of the three supported models, whose init
  sequences hold 14, 18 and 263 writes. Let the transport accept the first \<open>k - 1\<close>
  writes of the model's sequence and reject the \<open>k\<close>-th (writes counted from 1): stored
  in the macro's \<open>int ret\<close>, the earlier replies are non-negative and the \<open>k\<close>-th is the
  code \<open>r < 0\<close>; a reply within the range of \<open>int\<close> is stored as it is. Then the init
  sequence stops right after that write and returns \<open>r\<close>, \<open>st7703_enable\<close> logs the
  failure and returns \<open>r\<close>, the bus has seen exactly the first \<open>k\<close> writes of the
  sequence, neither exit-sleep-mode nor display-on is sent, and the instance, with its
  \<open>prepared\<close> flag, is unchanged.
\<close>

theorem enable_script_write_rejected:
  assumes "desc ctx \<in> set supported"
    and "1 \<le> k" and "k \<le> length (bus_ops (script_ops (desc ctx)))"
    and "to_int (env (tr @ through_write k (script_ops (desc ctx)))) = r" and "r < 0"
    and "\<forall>j. 1 \<le> j \<and> j < k \<longrightarrow>
           0 \<le> to_int (env (tr @ through_write j (script_ops (desc ctx))))"
  shows "init_sequence (desc ctx) env tr = (r, tr @ through_write k (script_ops (desc ctx)))
       \<and> st7703_enable env ctx tr =
           (r, ctx, tr @ through_write k (script_ops (desc ctx))
                       @ [Dev_err ''Panel init sequence failed: %d'' r])
       \<and> bus_ops (snd (snd (st7703_enable env ctx tr)))
           = bus_ops tr @ take k (bus_ops (script_ops (desc ctx)))
       \<and> Mipi_dsi_dcs_exit_sleep_mode \<notin> set (drop (length tr) (snd (snd (st7703_enable env ctx tr))))
       \<and> Mipi_dsi_dcs_set_display_on \<notin> set (drop (length tr) (snd (snd (st7703_enable env ctx tr))))
       \<and> prepared (fst (snd (st7703_enable env ctx tr))) = prepared ctx
       \<and> length (bus_ops (script_ops jh057n00900_panel_desc)) = 14
       \<and> length (bus_ops (script_ops xbd599_desc)) = 18
       \<and> length (bus_ops (script_ops atm0784_desc)) = 263
       \<and> (- 2147483648 \<le> env (tr @ through_write k (script_ops (desc ctx)))
           \<and> env (tr @ through_write k (script_ops (desc ctx))) < 2147483648
           \<longrightarrow> r = env (tr @ through_write k (script_ops (desc ctx))))"
proof -
  from assms(1) obtain ss
    where run: "init_sequence (desc ctx) = (\<lambda>env. run_seq env ss)"
      and ops: "script_ops (desc ctx) = map stmt_op ss"
    by (rule supported_cases)
  have init: "init_sequence (desc ctx) env tr = (r, tr @ through_write k (script_ops (desc ctx)))"
    unfolding run ops using assms(2-6) unfolding ops by (rule run_seq_reject)
  have en: "st7703_enable env ctx tr =
           (r, ctx, tr @ through_write k (script_ops (desc ctx))
                       @ [Dev_err ''Panel init sequence failed: %d'' r])"
    using init assms(5) by (simp add: st7703_enable_def prim_defs)
  have bus: "bus_ops (through_write k (script_ops (desc ctx))) = take k (bus_ops (script_ops (desc ctx)))"
    using assms(3) by (rule bus_ops_through_write)
  have code: "- 2147483648 \<le> env (tr @ through_write k (script_ops (desc ctx)))
           \<and> env (tr @ through_write k (script_ops (desc ctx))) < 2147483648
           \<longrightarrow> r = env (tr @ through_write k (script_ops (desc ctx)))"
    using assms(4) by (auto simp: to_int_id)
  have main: "init_sequence (desc ctx) env tr = (r, tr @ through_write k (script_ops (desc ctx)))
       \<and> st7703_enable env ctx tr =
           (r, ctx, tr @ through_write k (script_ops (desc ctx))
                       @ [Dev_err ''Panel init sequence failed: %d'' r])
       \<and> bus_ops (snd (snd (st7703_enable env ctx tr)))
           = bus_ops tr @ take k (bus_ops (script_ops (desc ctx)))
       \<and> Mipi_dsi_dcs_exit_sleep_mode \<notin> set (drop (length tr) (snd (snd (st7703_enable env ctx tr))))
       \<and> Mipi_dsi_dcs_set_display_on \<notin> set (drop (length tr) (snd (snd (st7703_enable env ctx tr))))
       \<and> prepared (fst (snd (st7703_enable env ctx tr))) = prepared ctx"
    using init en bus through_write_no_builtin [of k ss]
    by (simp add: ops bus_ops_append) (simp add: bus_ops_def)
  show ?thesis
    using main code write_counts by blast
qed

text \<open>
  Three runs. On jh057n00900 the third write is rejected with -5. On xbd599 the second
  write is answered with 2147483648, which \<open>int ret\<close> holds as -2147483648. On atm0784
  the fifth write, the header of the second block, is rejected with -5; the log messages
  that lie between the writes are part of the trace.
\<close>

theorem enable_script_write_rejected_witness:
  "st7703_enable (fails_at 3 (- 5)) \<lparr>prepared = True, desc = jh057n00900_panel_desc\<rparr> [] =
     (- 5, \<lparr>prepared = True, desc = jh057n00900_panel_desc\<rparr>,
      [Mipi_dsi_generic_write [0xB9, 0xF1, 0x12, 0x83],
       Mipi_dsi_generic_write [0xB3, 0x10, 0x10, 0x05, 0x05, 0x03, 0xFF, 0x00, 0x00, 0x00, 0x00],
       Mipi_dsi_generic_write [0xC0, 0x73, 0x73, 0x50, 0x50, 0x00, 0x00, 0x08, 0x70, 0x00],
       Dev_err ''Panel init sequence failed: %d'' (- 5)])
   \<and> st7703_enable (fails_at 2 2147483648) \<lparr>prepared = True, desc = xbd599_desc\<rparr> [] =
     (- 2147483648, \<lparr>prepared = True, desc = xbd599_desc\<rparr>,
      [Mipi_dsi_dcs_write 0xB9 [0xF1, 0x12, 0x83],
       Mipi_dsi_dcs_write 0xBA
         [0x33, 0x81, 0x05, 0xF9, 0x0E, 0x0E, 0x20, 0x00, 0x00, 0x00, 0x00, 0x00, 0x00,
          0x00, 0x44, 0x25, 0x00, 0x91, 0x0A, 0x00, 0x00, 0x02, 0x4F, 0x11, 0x00, 0x00,
          0x37],
       Dev_err ''Panel init sequence failed: %d'' (- 2147483648)])
   \<and> st7703_enable (fails_at 8 (- 5)) \<lparr>prepared = True, desc = atm0784_desc\<rparr> [] =
     (- 5, \<lparr>prepared = True, desc = atm0784_desc\<rparr>,
      [Dev_info ''Initializing atm0784...'', Dev_info ''Set EXTC'',
       Mipi_dsi_generic_write [0x04, 0xB9], Mipi_dsi_generic_write [0xF1],
       Mipi_dsi_generic_write [0x12], Mipi_dsi_generic_write [0x83],
       Dev_info ''Set RSO'', Mipi_dsi_generic_write [0x04, 0xB2],
       Dev_err ''Panel init sequence failed: %d'' (- 5)])"
proof (intro conjI)
  let ?ctx = "\<lparr>prepared = True, desc = jh057n00900_panel_desc\<rparr>"
  let ?ops = "script_ops (desc ?ctx)"
  have ops1: "through_write 1 ?ops = [Mipi_dsi_generic_write [0xB9, 0xF1, 0x12, 0x83]]"
    by (simp add: script_ops_jh057n jh057n_stmts_def ST7703_CMD_defs)
  have ops2: "through_write 2 ?ops =
      [Mipi_dsi_generic_write [0xB9, 0xF1, 0x12, 0x83],
       Mipi_dsi_generic_write [0xB3, 0x10, 0x10, 0x05, 0x05, 0x03, 0xFF, 0x00, 0x00, 0x00, 0x00]]"
    by (simp add: script_ops_jh057n jh057n_stmts_def ST7703_CMD_defs eval_nat_numeral)
  have ops3: "through_write 3 ?ops =
      [Mipi_dsi_generic_write [0xB9, 0xF1, 0x12, 0x83],
       Mipi_dsi_generic_write [0xB3, 0x10, 0x10, 0x05, 0x05, 0x03, 0xFF, 0x00, 0x00, 0x00, 0x00],
       Mipi_dsi_generic_write [0xC0, 0x73, 0x73, 0x50, 0x50, 0x00, 0x00, 0x08, 0x70, 0x00]]"
    by (simp add: script_ops_jh057n jh057n_stmts_def ST7703_CMD_defs eval_nat_numeral)
  have h1: "desc ?ctx \<in> set supported" by (simp add: supported_def)
  have h2: "(1::nat) \<le> 3" by simp
  have h3: "3 \<le> length (bus_ops ?ops)" by (simp add: write_counts)
  have h4: "to_int (fails_at 3 (- 5) ([] @ through_write 3 ?ops)) = - 5"
    by (simp only: ops3) (simp add: fails_at_def to_int_def)
  have h5: "(- 5::int) < 0" by simp
  have h6: "\<forall>j. 1 \<le> j \<and> j < 3 \<longrightarrow>
      0 \<le> to_int (fails_at 3 (- 5) ([] @ through_write j ?ops))"
  proof (intro allI impI)
    fix j :: nat
    assume "1 \<le> j \<and> j < 3"
    then have "j = 1 \<or> j = 2" by arith
    then show "0 \<le> to_int (fails_at 3 (- 5) ([] @ through_write j ?ops))"
      using ops1 ops2 by (auto simp: fails_at_def to_int_0)
  qed
  show "st7703_enable (fails_at 3 (- 5)) ?ctx [] =
     (- 5, ?ctx,
      [Mipi_dsi_generic_write [0xB9, 0xF1, 0x12, 0x83],
       Mipi_dsi_generic_write [0xB3, 0x10, 0x10, 0x05, 0x05, 0x03, 0xFF, 0x00, 0x00, 0x00, 0x00],
       Mipi_dsi_generic_write [0xC0, 0x73, 0x73, 0x50, 0x50, 0x00, 0x00, 0x08, 0x70, 0x00],
       Dev_err ''Panel init sequence failed: %d'' (- 5)])"
    using enable_script_write_rejected [OF h1 h2 h3 h4 h5 h6] by (simp only: ops3) simp
next
  let ?ctx = "\<lparr>prepared = True, desc = xbd599_desc\<rparr>"
  let ?ops = "script_ops (desc ?ctx)"
  have ops1: "through_write 1 ?ops = [Mipi_dsi_dcs_write 0xB9 [0xF1, 0x12, 0x83]]"
    by (simp add: script_ops_xbd599 xbd599_stmts_def ST7703_CMD_defs)
  have ops2: "through_write 2 ?ops =
      [Mipi_dsi_dcs_write 0xB9 [0xF1, 0x12, 0x83],
       Mipi_dsi_dcs_write 0xBA
         [0x33, 0x81, 0x05, 0xF9, 0x0E, 0x0E, 0x20, 0x00, 0x00, 0x00, 0x00, 0x00, 0x00,
          0x00, 0x44, 0x25, 0x00, 0x91, 0x0A, 0x00, 0x00, 0x02, 0x4F, 0x11, 0x00, 0x00,
          0x37]]"
    by (simp add: script_ops_xbd599 xbd599_stmts_def ST7703_CMD_defs eval_nat_numeral)
  have h1: "desc ?ctx \<in> set supported" by (simp add: supported_def)
  have h2: "(1::nat) \<le> 2" by simp
  have h3: "2 \<le> length (bus_ops ?ops)" by (simp add: write_counts)
  have h4: "to_int (fails_at 2 2147483648 ([] @ through_write 2 ?ops)) = - 2147483648"
    by (simp only: ops2) (simp add: fails_at_def to_int_def)
  have h5: "(- 2147483648::int) < 0" by simp
  have h6: "\<forall>j. 1 \<le> j \<and> j < 2 \<longrightarrow>
      0 \<le> to_int (fails_at 2 2147483648 ([] @ through_write j ?ops))"
  proof (intro allI impI)
    fix j :: nat
    assume "1 \<le> j \<and> j < 2"
    then have "j = 1" by arith
    then show "0 \<le> to_int (fails_at 2 2147483648 ([] @ through_write j ?ops))"
      using ops1 by (auto simp: fails_at_def to_int_0)
  qed
  show "st7703_enable (fails_at 2 2147483648) ?ctx [] =
     (- 2147483648, ?ctx,
      [Mipi_dsi_dcs_write 0xB9 [0xF1, 0x12, 0x83],
       Mipi_dsi_dcs_write 0xBA
         [0x33, 0x81, 0x05, 0xF9, 0x0E, 0x0E, 0x20, 0x00, 0x00, 0x00, 0x00, 0x00, 0x00,
          0x00, 0x44, 0x25, 0x00, 0x91, 0x0A, 0x00, 0x00, 0x02, 0x4F, 0x11, 0x00, 0x00,
          0x37],
       Dev_err ''Panel init sequence failed: %d'' (- 2147483648)])"
    using enable_script_write_rejected [OF h1 h2 h3 h4 h5 h6] by (simp only: ops2) simp
next
  let ?ctx = "\<lparr>prepared = True, desc = atm0784_desc\<rparr>"
  let ?ops = "script_ops (desc ?ctx)"
  have ops1: "length (through_write 1 ?ops) = 3"
    by (simp add: script_ops_atm0784 atm0784_stmts_def)
  have ops2: "length (through_write 2 ?ops) = 4"
    by (simp add: script_ops_atm0784 atm0784_stmts_def eval_nat_numeral)
  have ops3: "length (through_write 3 ?ops) = 5"
    by (simp add: script_ops_atm0784 atm0784_stmts_def eval_nat_numeral)
  have ops4: "length (through_write 4 ?ops) = 6"
    by (simp add: script_ops_atm0784 atm0784_stmts_def eval_nat_numeral)
  have ops5: "through_write 5 ?ops =
      [Dev_info ''Initializing atm0784...'', Dev_info ''Set EXTC'',
       Mipi_dsi_generic_write [0x04, 0xB9], Mipi_dsi_generic_write [0xF1],
       Mipi_dsi_generic_write [0x12], Mipi_dsi_generic_write [0x83],
       Dev_info ''Set RSO'', Mipi_dsi_generic_write [0x04, 0xB2]]"
    by (simp add: script_ops_atm0784 atm0784_stmts_def eval_nat_numeral)
  have h1: "desc ?ctx \<in> set supported" by (simp add: supported_def)
  have h2: "(1::nat) \<le> 5" by simp
  have h3: "5 \<le> length (bus_ops ?ops)" by (simp add: write_counts)
  have h4: "to_int (fails_at 8 (- 5) ([] @ through_write 5 ?ops)) = - 5"
    by (simp only: ops5) (simp add: fails_at_def to_int_def)
  have h5: "(- 5::int) < 0" by simp
  have h6: "\<forall>j. 1 \<le> j \<and> j < 5 \<longrightarrow>
      0 \<le> to_int (fails_at 8 (- 5) ([] @ through_write j ?ops))"
  proof (intro allI impI)
    fix j :: nat
    assume "1 \<le> j \<and> j < 5"
    then have "j = 1 \<or> j = 2 \<or> j = 3 \<or> j = 4" by arith
    then show "0 \<le> to_int (fails_at 8 (- 5) ([] @ through_write j ?ops))"
      using ops1 ops2 ops3 ops4 by (auto simp: fails_at_def to_int_0)
  qed
  show "st7703_enable (fails_at 8 (- 5)) ?ctx [] =
     (- 5, ?ctx,
      [Dev_info ''Initializing atm0784...'', Dev_info ''Set EXTC'',
       Mipi_dsi_generic_write [0x04, 0xB9], Mipi_dsi_generic_write [0xF1],
       Mipi_dsi_generic_write [0x12], Mipi_dsi_generic_write [0x83],
       Dev_info ''Set RSO'', Mipi_dsi_generic_write [0x04, 0xB2],
       Dev_err ''Panel init sequence failed: %d'' (- 5)])"
    using enable_script_write_rejected [OF h1 h2 h3 h4 h5 h6] by (simp only: ops5) simp
qed

text \<open>
  Claim C7. When the init sequence has succeeded, leaving the trace \<open>tr1\<close>,
  \<open>st7703_enable\<close> waits 20 ms and sends exit-sleep-mode. If that fails, the error is
  logged and returned, with no further wait. Otherwise it waits 250 ms and sends
  display-on; if that returns a nonzero code, the code is returned at once, with no
  further wait. Otherwise it waits 50 ms and returns 0.
\<close>

theorem st7703_enable_after_script:
  assumes "init_sequence (desc ctx) env tr = (r0, tr1)" and "0 \<le> r0"
  shows
    "(env (tr1 @ [Msleep 20, Mipi_dsi_dcs_exit_sleep_mode]) < 0 \<longrightarrow>
        st7703_enable env ctx tr =
          (env (tr1 @ [Msleep 20, Mipi_dsi_dcs_exit_sleep_mode]), ctx,
           tr1 @ [Msleep 20, Mipi_dsi_dcs_exit_sleep_mode,
                  Dev_err ''Failed to exit sleep mode: %d''
                    (env (tr1 @ [Msleep 20, Mipi_dsi_dcs_exit_sleep_mode]))]))
     \<and> (0 \<le> env (tr1 @ [Msleep 20, Mipi_dsi_dcs_exit_sleep_mode])
         \<and> env (tr1 @ [Msleep 20, Mipi_dsi_dcs_exit_sleep_mode, Msleep 250,
                        Mipi_dsi_dcs_set_display_on]) \<noteq> 0 \<longrightarrow>
        st7703_enable env ctx tr =
          (env (tr1 @ [Msleep 20, Mipi_dsi_dcs_exit_sleep_mode, Msleep 250,
                       Mipi_dsi_dcs_set_display_on]), ctx,
           tr1 @ [Msleep 20, Mipi_dsi_dcs_exit_sleep_mode, Msleep 250,
                  Mipi_dsi_dcs_set_display_on]))
     \<and> (0 \<le> env (tr1 @ [Msleep 20, Mipi_dsi_dcs_exit_sleep_mode])
         \<and> env (tr1 @ [Msleep 20, Mipi_dsi_dcs_exit_sleep_mode, Msleep 250,
                        Mipi_dsi_dcs_set_display_on]) = 0 \<longrightarrow>
        st7703_enable env ctx tr =
          (0, ctx,
           tr1 @ [Msleep 20, Mipi_dsi_dcs_exit_sleep_mode, Msleep 250,
                  Mipi_dsi_dcs_set_display_on, Msleep 50,
                  Dev_info ''Panel init sequence done'']))"
  using assms by (simp add: st7703_enable_def prim_defs)

lemma run_seq_fails_at_late:
  "length tr + length ss < n \<Longrightarrow> run_seq (fails_at n r) ss tr = (0, tr @ map stmt_op ss)"
  by (induction ss arbitrary: tr rule: list.induct)
     (simp, rename_tac s ss tr, case_tac s,
      simp_all add: prim_defs fails_at_def Let_def to_int_0)

lemma length_jh057n_stmts: "length jh057n_stmts = 15"
  by (simp add: jh057n_stmts_def)

theorem st7703_enable_after_script_witness:
  "st7703_enable accept_all \<lparr>prepared = True, desc = jh057n00900_panel_desc\<rparr> [] =
     (0, \<lparr>prepared = True, desc = jh057n00900_panel_desc\<rparr>,
      script_ops jh057n00900_panel_desc
        @ [Msleep 20, Mipi_dsi_dcs_exit_sleep_mode, Msleep 250,
           Mipi_dsi_dcs_set_display_on, Msleep 50, Dev_info ''Panel init sequence done''])
   \<and> st7703_enable (fails_at 17 (- 5)) \<lparr>prepared = True, desc = jh057n00900_panel_desc\<rparr> [] =
     (- 5, \<lparr>prepared = True, desc = jh057n00900_panel_desc\<rparr>,
      script_ops jh057n00900_panel_desc
        @ [Msleep 20, Mipi_dsi_dcs_exit_sleep_mode,
           Dev_err ''Failed to exit sleep mode: %d'' (- 5)])
   \<and> st7703_enable (fails_at 19 (- 5)) \<lparr>prepared = True, desc = jh057n00900_panel_desc\<rparr> [] =
     (- 5, \<lparr>prepared = True, desc = jh057n00900_panel_desc\<rparr>,
      script_ops jh057n00900_panel_desc
        @ [Msleep 20, Mipi_dsi_dcs_exit_sleep_mode, Msleep 250,
           Mipi_dsi_dcs_set_display_on])"
proof -
  let ?ctx = "\<lparr>prepared = True, desc = jh057n00900_panel_desc\<rparr>"
  let ?ops = "script_ops jh057n00900_panel_desc"
  have len: "length ?ops = 15"
    by (simp add: script_ops_jh057n length_jh057n_stmts)
  have a: "init_sequence (desc ?ctx) accept_all [] = (0, ?ops)"
    by (simp add: jh057n00900_panel_desc_def jh057n_init_sequence_def script_ops_def)
       (simp add: run_seq_accepted accept_all_accepted)
  have b: "init_sequence (desc ?ctx) (fails_at 17 (- 5)) [] = (0, ?ops)"
    by (simp add: script_ops_jh057n)
       (simp add: jh057n00900_panel_desc_def jh057n_init_sequence_def
          run_seq_fails_at_late length_jh057n_stmts)
  have c: "init_sequence (desc ?ctx) (fails_at 19 (- 5)) [] = (0, ?ops)"
    by (simp add: script_ops_jh057n)
       (simp add: jh057n00900_panel_desc_def jh057n_init_sequence_def
          run_seq_fails_at_late length_jh057n_stmts)
  have z: "(0::int) \<le> 0" by simp
  show ?thesis
    using st7703_enable_after_script [OF a z] st7703_enable_after_script [OF b z]
      st7703_enable_after_script [OF c z] len
    by (simp add: accept_all_def fails_at_def)
qed

subsection \<open>Settle delays inside the init sequences\<close>

lemma jh057n_trace_prefix:
  "\<exists>n. snd (jh057n_init_sequence env tr) = tr @ take n (script_ops jh057n00900_panel_desc)"
  unfolding jh057n_init_sequence_def script_ops_jh057n by (rule run_seq_prefix)

lemma xbd599_trace_prefix:
  "\<exists>n. snd (xbd599_init_sequence env tr) = tr @ take n (script_ops xbd599_desc)"
  unfolding xbd599_init_sequence_def script_ops_xbd599 by (rule run_seq_prefix)

lemma atm0784_trace_prefix:
  "\<exists>n. snd (atm0784_init_sequence env tr) = tr @ take n (script_ops atm0784_desc)"
  unfolding atm0784_init_sequence_def script_ops_atm0784 by (rule run_seq_prefix)

lemma jh057n_delays:
  "delays (script_ops jh057n00900_panel_desc) = [Msleep 20]"
  "mid_script_delays (script_ops jh057n00900_panel_desc) = [Msleep 20]"
  "take 3 (drop 8 (script_ops jh057n00900_panel_desc)) =
     [Mipi_dsi_generic_write [0xB5, 0x08, 0x08], Msleep 20,
      Mipi_dsi_generic_write [0xB6, 0x3F, 0x3F]]"
  by (simp_all add: script_ops_jh057n jh057n_stmts_def delays_def mid_script_delays_def
      ST7703_CMD_defs)

lemma xbd599_delays:
  "delays (script_ops xbd599_desc) = [Msleep 20]"
  "mid_script_delays (script_ops xbd599_desc) = [Msleep 20]"
  "take 3 (drop 12 (script_ops xbd599_desc)) =
     [Mipi_dsi_dcs_write 0xB5 [0x07, 0x07], Msleep 20,
      Mipi_dsi_dcs_write 0xB6 [0x2C, 0x2C]]"
  by (simp_all add: script_ops_xbd599 xbd599_stmts_def delays_def mid_script_delays_def
      ST7703_CMD_defs)

lemma atm0784_delays:
  "delays (script_ops atm0784_desc) = []"
  by (simp add: script_ops_atm0784 atm0784_stmts_def delays_def)

lemma mid_script_delays_none:
  assumes "delays tr = []"
  shows "mid_script_delays tr = []"
proof -
  let ?P = "\<lambda>x. \<not> is_bus x"
  have sub: "x \<in> set tr" if "x \<in> set (rev (dropWhile ?P (rev (dropWhile ?P tr))))" for x
  proof -
    from that have "x \<in> set (rev (dropWhile ?P tr))"
      by (auto dest: set_dropWhileD)
    then show ?thesis
      by (auto dest: set_dropWhileD)
  qed
  from assms have "\<forall>x \<in> set tr. \<not> is_delay x"
    by (simp add: delays_def filter_empty_conv)
  with sub show ?thesis
    unfolding mid_script_delays_def delays_def filter_empty_conv by blast
qed

text \<open>
  Claim C5 says that each of the three init sequences waits between two of its writes.
  The atm0784 sequence does not: run to the end, it performs no wait at all.
\<close>

theorem atm0784_no_mid_script_delay:
  "mid_script_delays (script_ops atm0784_desc) = [] \<and> delays (script_ops atm0784_desc) = []"
  using atm0784_delays mid_script_delays_none by blast

text \<open>
  Claim C5, as the code has it. Each init sequence runs top to bottom: when every reply,
  stored in the macro's \<open>int ret\<close>, is non-negative, it performs one fixed list of
  operations and returns 0, and whatever the environment answers, the operations it
  performs are an initial part of that list. The jh057n00900 and the xbd599 sequence each
  hold exactly one wait, of 20 ms, between the SETBGP write and the SETVCOM write. The
  atm0784 sequence holds no wait.
\<close>

theorem init_sequence_delays:
  "((\<forall>h. 0 \<le> to_int (env h)) \<longrightarrow>
      jh057n_init_sequence env tr = (0, tr @ script_ops jh057n00900_panel_desc)
      \<and> xbd599_init_sequence env tr = (0, tr @ script_ops xbd599_desc)
      \<and> atm0784_init_sequence env tr = (0, tr @ script_ops atm0784_desc))
   \<and> (\<exists>n. snd (jh057n_init_sequence env tr) = tr @ take n (script_ops jh057n00900_panel_desc))
   \<and> (\<exists>n. snd (xbd599_init_sequence env tr) = tr @ take n (script_ops xbd599_desc))
   \<and> (\<exists>n. snd (atm0784_init_sequence env tr) = tr @ take n (script_ops atm0784_desc))
   \<and> delays (script_ops jh057n00900_panel_desc) = [Msleep 20]
   \<and> mid_script_delays (script_ops jh057n00900_panel_desc) = [Msleep 20]
   \<and> take 3 (drop 8 (script_ops jh057n00900_panel_desc)) =
       [Mipi_dsi_generic_write [0xB5, 0x08, 0x08], Msleep 20,
        Mipi_dsi_generic_write [0xB6, 0x3F, 0x3F]]
   \<and> delays (script_ops xbd599_desc) = [Msleep 20]
   \<and> mid_script_delays (script_ops xbd599_desc) = [Msleep 20]
   \<and> take 3 (drop 12 (script_ops xbd599_desc)) =
       [Mipi_dsi_dcs_write 0xB5 [0x07, 0x07], Msleep 20,
        Mipi_dsi_dcs_write 0xB6 [0x2C, 0x2C]]
   \<and> delays (script_ops atm0784_desc) = []"
  using jh057n_trace_prefix xbd599_trace_prefix atm0784_trace_prefix
    jh057n_delays xbd599_delays atm0784_delays
    jh057n_full_run xbd599_full_run atm0784_full_run
  by (intro conjI impI) blast+

text \<open>
  On the transport that answers 0 to every write, the jh057n00900 and the xbd599 run wait
  once, 20 ms, and the atm0784 run never waits.
\<close>

theorem init_sequence_delays_witness:
  "(\<forall>h. 0 \<le> to_int (accept_all h))
   \<and> fst (jh057n_init_sequence accept_all []) = 0
   \<and> delays (snd (jh057n_init_sequence accept_all [])) = [Msleep 20]
   \<and> mid_script_delays (snd (jh057n_init_sequence accept_all [])) = [Msleep 20]
   \<and> fst (xbd599_init_sequence accept_all []) = 0
   \<and> delays (snd (xbd599_init_sequence accept_all [])) = [Msleep 20]
   \<and> mid_script_delays (snd (xbd599_init_sequence accept_all [])) = [Msleep 20]
   \<and> fst (atm0784_init_sequence accept_all []) = 0
   \<and> delays (snd (atm0784_init_sequence accept_all [])) = []"
proof -
  have acc: "\<forall>h. 0 \<le> to_int (accept_all h)"
    by (simp add: accept_all_accepted)
  show ?thesis
    using acc init_sequence_delays [of accept_all "[]"] by simp
qed

subsection \<open>The count bytes of the atm0784 sequence\<close>

text \<open>
  Claim C9 at the atm0784 sequence. The sequence is made of 17 blocks, each led by a write
  of two bytes, count and command id. In 16 of them the count is one more than the number
  of single-byte parameter writes that follow. The eighth block, \<open>[0x1C, 0xBA]\<close>
  (Set DSI), announces 28 bytes and is followed by 26 parameter writes, not 27.
\<close>

theorem atm0784_block_counts:
  "map block_shape (blocks (map payload (bus_ops (script_ops atm0784_desc)))) =
     [([0x04, 0xB9], 3), ([0x04, 0xB2], 3), ([0x0B, 0xB3], 10), ([0x02, 0xB4], 1),
      ([0x03, 0xB5], 2), ([0x03, 0xB6], 2), ([0x02, 0xB8], 1), ([0x1C, 0xBA], 26),
      ([0x02, 0xBC], 1), ([0x04, 0xBF], 3), ([0x0A, 0xC0], 9), ([0x0D, 0xC1], 12),
      ([0x02, 0xCC], 1), ([0x23, 0xE0], 34), ([0x0F, 0xE3], 14), ([0x40, 0xE9], 63),
      ([0x3E, 0xEA], 61)]
   \<and> map block_ok (blocks (map payload (bus_ops (script_ops atm0784_desc)))) =
     [True, True, True, True, True, True, True, False, True, True, True, True, True,
      True, True, True, True]"
  by (simp add: script_ops_atm0784 atm0784_stmts_def bus_ops_def is_param_def)

subsection \<open>Shutdown and removal\<close>

text \<open>
  Claim C1 at a prepared instance. \<open>st7703_shutdown\<close>, and \<open>st7703_remove\<close> through it,
  calls unprepare first and disable second: the reset line is asserted and both regulators
  are switched off before display-off and enter-sleep-mode go over the bus. Each of the
  two operations runs once.
\<close>

theorem st7703_shutdown_unprepares_first:
  "st7703_shutdown accept_all \<lparr>prepared = True, desc = jh057n00900_panel_desc\<rparr> [] =
     (\<lparr>prepared = False, desc = jh057n00900_panel_desc\<rparr>,
      [Gpiod_set_value_cansleep 1, Regulator_disable Iovcc, Regulator_disable Vcc,
       Mipi_dsi_dcs_set_display_off, Mipi_dsi_dcs_enter_sleep_mode])
   \<and> st7703_remove accept_all \<lparr>prepared = True, desc = jh057n00900_panel_desc\<rparr> [] =
     (0, \<lparr>prepared = False, desc = jh057n00900_panel_desc\<rparr>,
      [Gpiod_set_value_cansleep 1, Regulator_disable Iovcc, Regulator_disable Vcc,
       Mipi_dsi_dcs_set_display_off, Mipi_dsi_dcs_enter_sleep_mode,
       Mipi_dsi_detach, Drm_panel_remove, Debugfs_remove_recursive])"
  by (simp add: st7703_remove_def st7703_shutdown_def drm_panel_unprepare_def
      drm_panel_disable_def st7703_unprepare_def st7703_disable_def prim_defs Let_def
      accept_all_def)

text \<open>
  The debugfs hook cycles the panel in the other order: disable, then unprepare, then
  prepare and enable.
\<close>

lemma allpixelson_set_disables_first:
  "allpixelson_set accept_all 1 \<lparr>prepared = True, desc = jh057n00900_panel_desc\<rparr> [] =
     (0, \<lparr>prepared = True, desc = jh057n00900_panel_desc\<rparr>,
      [Dev_dbg ''Setting all pixels on'', Mipi_dsi_generic_write [0x23], Msleep 1000,
       Mipi_dsi_dcs_set_display_off, Mipi_dsi_dcs_enter_sleep_mode,
       Gpiod_set_value_cansleep 1, Regulator_disable Iovcc, Regulator_disable Vcc,
       Dev_info ''Resetting the panel'', Regulator_enable Vcc, Regulator_enable Iovcc,
       Gpiod_set_value_cansleep 1, Usleep_range 20 40, Gpiod_set_value_cansleep 0,
       Msleep 20]
      @ map stmt_op jh057n_stmts
      @ [Msleep 20, Mipi_dsi_dcs_exit_sleep_mode, Msleep 250,
         Mipi_dsi_dcs_set_display_on, Msleep 50, Dev_info ''Panel init sequence done''])"
  by (simp add: allpixelson_set_def drm_panel_unprepare_def drm_panel_disable_def
      drm_panel_prepare_def drm_panel_enable_def st7703_unprepare_def st7703_disable_def
      st7703_prepare_def st7703_enable_def prim_defs Let_def accept_all_def to_int_0
      jh057n00900_panel_desc_def jh057n_init_sequence_def run_seq_accepted
      ST7703_CMD_ALL_PIXEL_ON_def)

end
